theory Spec2Isabelle
  imports Main "HOL-Library.Word" "HOL-Library.AList"
begin

section \<open>The relay room of \<^verbatim>\<open>rebrow/src/relay.ts\<close>\<close>

text \<open>
  The Durable Object \<^verbatim>\<open>RebrowRelay\<close> is embedded as a record of its fields together with
  the two pieces of platform state it reads: the stored auth record (\<^verbatim>\<open>ctx.storage\<close>) and the
  tagged sockets (\<^verbatim>\<open>ctx.getWebSockets\<close>, \<^verbatim>\<open>ctx.getTags\<close>).  Every method becomes a function
  from the room to the new room and the list of effects it had on the outside (messages sent,
  sockets closed, promises settled).  A JavaScript \<^verbatim>\<open>Map\<close> is an association list in insertion
  order: \<^const>\<open>AList.update\<close> is \<^verbatim>\<open>Map.set\<close> (replace in place, else append) and
  \<^const>\<open>AList.delete\<close> is \<^verbatim>\<open>Map.delete\<close>.  An \<^verbatim>\<open>await\<close> on a request to a back-end peer
  is cut in two: the dispatch stores in the pending table who is waiting, and the response, the
  timeout or the disconnect resumes that waiter.  Handlers run one at a time, as the spec's
  per-room serialisation says.
\<close>

subsection \<open>Values on the wire (\<^verbatim>\<open>types.ts\<close>)\<close>

type_synonym ws = nat
  \<comment> \<open>a WebSocket handle\<close>
type_synonym number = int
  \<comment> \<open>a JavaScript number that the relay only stores, compares with zero, adds 5000 to or
     forwards; counters stay far below \<open>2^53\<close>, where the arithmetic of numbers is exact\<close>
type_synonym unknown = string
  \<comment> \<open>an opaque JSON value that the relay forwards untouched\<close>

record Frame =
  url :: string
  name :: "string option"
  parentId :: "string option"

record TargetInfo =
  targetId :: string
  type :: string
  title :: string
  url :: string
  attached :: "bool option"
  browserContextId :: "string option"

text \<open>
  The \<^verbatim>\<open>params\<close> of a forwarded event are read through unchecked casts
  (\<^verbatim>\<open>params as { sessionId, targetInfo, ... }\<close>, \<^verbatim>\<open>params as { frame }\<close>); the record holds
  every field that some cast reads, and each branch reads the fields of its own cast.
\<close>

record EventParams =
  sessionId :: string
  targetInfo :: TargetInfo
  frame :: Frame

record CDPEvent =
  methodName :: string
  params :: "EventParams option"
  sessionId :: "string option"

record ConnectedTarget =
  sessionId :: string
  targetId :: string
  targetInfo :: TargetInfo

datatype ExtensionMessage =
    ExtensionResponseMessage nat "unknown option" "string option"
  | ExtensionEventMessage CDPEvent
  | ExtensionLogMessage string "string list"
  | ExtensionPongMessage

datatype LocalResult =
    LocalReadResult string number
  | LocalWriteResult number
  | LocalBashResult string string number

datatype LocalMessage =
    LocalResponse nat "LocalResult option" "string option"
  | LocalLogMessage string "string list"
  | LocalPongMessage

datatype LocalParams =
    LocalReadParams string
  | LocalWriteParams string string "number option"
  | LocalBashParams string "string option" "number option"

record LocalCommand =
  methodName :: string
  params :: LocalParams

record RoomAuth =
  passphraseHash :: string
  createdAt :: number

record BashOptions =
  workdir :: "string option"
  timeout :: "number option"

datatype error =
    Error string
  | TypeError string

subsection \<open>Pending requests and effects\<close>

text \<open>
  An entry of \<^verbatim>\<open>pendingRequests\<close> holds \<^verbatim>\<open>mcpClientId\<close> and two closures; the closures
  capture the timer, and the timer captures \<^verbatim>\<open>timeout\<close> and \<^verbatim>\<open>method\<close> for its message
  (the fields \<open>timeout\<close> and \<open>forMethod\<close>, \<open>localMethod\<close>).
  An entry of \<^verbatim>\<open>pendingLocalRequests\<close> moreover records which method awaits the promise,
  since \<^verbatim>\<open>readFile\<close> and \<^verbatim>\<open>writeFile\<close> go on after the \<^verbatim>\<open>await\<close>.
\<close>

record PendingRequest =
  mcpClientId :: string
  timeout :: number
  forMethod :: string

datatype Awaiter =
    AwaitReadFile string
  | AwaitWriteFile string
  | AwaitExecuteBash
  | AwaitCaller

record PendingLocalRequest =
  awaiter :: Awaiter
  timeout :: number
  localMethod :: string

datatype Outgoing =
    ForwardCDPCommand nat string "unknown option" "string option"
  | LocalCommandMessage nat LocalCommand
  | Ping
  | Event CDPEvent

datatype Body = Text string | Connected bool | WebSocketClient | Null

record Response =
  body :: Body
  status :: nat

datatype effect =
    Send ws Outgoing
  | Close ws nat string
  | Settled nat PendingRequest "error + unknown option"
  | SettledLocal nat PendingLocalRequest "error + LocalResult option"
  | Thrown error
  | Responded Response

record Request =
  pathname :: string
  passphrase :: "string option"
  server :: ws

record Room =
  auth :: "RoomAuth option"
  sockets :: "(ws \<times> string list) list"
  connectedTargets :: "(string \<times> ConnectedTarget) list"
  pendingRequests :: "(nat \<times> PendingRequest) list"
  pendingLocalRequests :: "(nat \<times> PendingLocalRequest) list"
  fileReadTimestamps :: "string \<Rightarrow> number option"
  messageId :: nat
  localMessageId :: nat
  pingInterval :: bool

text \<open>
  \<^verbatim>\<open>fileReadTimestamps\<close> is only ever read by \<^verbatim>\<open>get(path)\<close> compared with \<^verbatim>\<open>undefined\<close>,
  so a map to \<open>number option\<close> is exact: \<open>None\<close> is what \<^verbatim>\<open>get\<close> answers with
  \<^verbatim>\<open>undefined\<close>.
\<close>

definition fresh :: Room where
  "fresh = \<lparr>auth = None, sockets = [], connectedTargets = [], pendingRequests = [],
     pendingLocalRequests = [], fileReadTimestamps = (\<lambda>_. None), messageId = 0,
     localMessageId = 0, pingInterval = False\<rparr>"

subsection \<open>JavaScript helpers\<close>

definition truthy_string :: "string option \<Rightarrow> bool" where
  "truthy_string s = (case s of None \<Rightarrow> False | Some v \<Rightarrow> v \<noteq> [])"

definition truthy_number :: "number option \<Rightarrow> bool" where
  "truthy_number n = (case n of None \<Rightarrow> False | Some v \<Rightarrow> v \<noteq> 0)"

definition startsWith :: "string \<Rightarrow> string \<Rightarrow> bool" where
  "startsWith s p = (take (length p) s = p)"

fun split_on :: "char \<Rightarrow> string \<Rightarrow> string list" where
  "split_on c [] = [[]]"
| "split_on c (x # xs) =
     (if x = c then [] # split_on c xs
      else (case split_on c xs of [] \<Rightarrow> [[x]] | w # rest \<Rightarrow> (x # w) # rest))"

fun dec :: "nat \<Rightarrow> string" where
  "dec n = (if n < 10 then [''0123456789'' ! n]
            else dec (n div 10) @ [''0123456789'' ! (n mod 10)])"

definition show_number :: "number \<Rightarrow> string" where
  "show_number i = (if i < 0 then CHR ''-'' # dec (nat (- i)) else dec (nat i))"

subsection \<open>Passphrase auth\<close>

definition hexdigit :: "nat \<Rightarrow> char" where
  "hexdigit n = ''0123456789abcdef'' ! n"

definition hex2 :: "8 word \<Rightarrow> string" where
  "hex2 b = [hexdigit (unat b div 16), hexdigit (unat b mod 16)]"

text \<open>
  \<^verbatim>\<open>hashPassphrase\<close>: the parameter \<open>digest\<close> is the platform's
  \<^verbatim>\<open>crypto.subtle.digest('SHA-256', new TextEncoder().encode(passphrase))\<close>; the function
  itself renders each byte as two lower-case hexadecimal digits.
\<close>

definition hashPassphrase :: "(string \<Rightarrow> 8 word list) \<Rightarrow> string \<Rightarrow> string" where
  "hashPassphrase digest pass = concat (map hex2 (digest pass))"

definition validatePassphrase ::
  "(string \<Rightarrow> 8 word list) \<Rightarrow> number \<Rightarrow> string \<Rightarrow> Room \<Rightarrow> bool \<times> Room" where
  "validatePassphrase digest now pass st =
     (case auth st of
        None \<Rightarrow>
          (True, st\<lparr>auth := Some \<lparr>passphraseHash = hashPassphrase digest pass,
                                  createdAt = now\<rparr>\<rparr>)
      | Some stored \<Rightarrow> (hashPassphrase digest pass = passphraseHash stored, st))"

subsection \<open>The socket registry\<close>

definition getTags :: "ws \<Rightarrow> Room \<Rightarrow> string list" where
  "getTags w st = (case map_of (sockets st) w of None \<Rightarrow> [] | Some tags \<Rightarrow> tags)"

definition getExtensionWebSocket :: "Room \<Rightarrow> ws option" where
  "getExtensionWebSocket st =
     map_option fst (find (\<lambda>(w, tags). ''extension'' \<in> set tags) (sockets st))"

definition getMcpWebSocket :: "string \<Rightarrow> Room \<Rightarrow> ws option" where
  "getMcpWebSocket clientId st =
     map_option fst (find (\<lambda>(w, tags). (''mcp:'' @ clientId) \<in> set tags) (sockets st))"

definition getMcpWebSockets :: "Room \<Rightarrow> ws list" where
  "getMcpWebSockets st =
     map fst (filter (\<lambda>(w, tags). list_ex (\<lambda>t. startsWith t ''mcp:'') tags) (sockets st))"

definition getLocalWebSocket :: "Room \<Rightarrow> ws option" where
  "getLocalWebSocket st =
     map_option fst (find (\<lambda>(w, tags). list_ex (\<lambda>t. startsWith t ''local:'') tags) (sockets st))"

definition acceptWebSocket :: "ws \<Rightarrow> string list \<Rightarrow> Room \<Rightarrow> Room" where
  "acceptWebSocket w tags st = st\<lparr>sockets := sockets st @ [(w, tags)]\<rparr>"

definition stopPingInterval :: "Room \<Rightarrow> Room" where
  "stopPingInterval st = st\<lparr>pingInterval := False\<rparr>"

definition startPingInterval :: "Room \<Rightarrow> Room" where
  "startPingInterval st = (stopPingInterval st)\<lparr>pingInterval := True\<rparr>"

subsection \<open>\<^verbatim>\<open>fetch\<close> and the upgrades\<close>

definition handleExtensionUpgrade :: "Request \<Rightarrow> Room \<Rightarrow> Response \<times> Room" where
  "handleExtensionUpgrade request st =
     (case getExtensionWebSocket st of
        Some existingWs \<Rightarrow> (\<lparr>body = Text ''Extension already connected'', status = 409\<rparr>, st)
      | None \<Rightarrow>
          (\<lparr>body = WebSocketClient, status = 101\<rparr>,
           startPingInterval (acceptWebSocket (server request) [''extension''] st)))"

definition handleMcpUpgrade :: "Request \<Rightarrow> string \<Rightarrow> Room \<Rightarrow> Response \<times> Room" where
  "handleMcpUpgrade request clientId st =
     (case getMcpWebSocket clientId st of
        Some existingWs \<Rightarrow> (\<lparr>body = Text ''Client ID already connected'', status = 409\<rparr>, st)
      | None \<Rightarrow>
          (\<lparr>body = WebSocketClient, status = 101\<rparr>,
           acceptWebSocket (server request) [''mcp:'' @ clientId] st))"

definition handleLocalUpgrade :: "Request \<Rightarrow> string \<Rightarrow> Room \<Rightarrow> Response \<times> Room" where
  "handleLocalUpgrade request clientId st =
     (case getLocalWebSocket st of
        Some existingWs \<Rightarrow> (\<lparr>body = Text ''Local client already connected'', status = 409\<rparr>, st)
      | None \<Rightarrow>
          (\<lparr>body = WebSocketClient, status = 101\<rparr>,
           startPingInterval (acceptWebSocket (server request) [''local:'' @ clientId] st)))"

definition clientIdOf :: "string \<Rightarrow> string" where
  \<comment> \<open>\<^verbatim>\<open>url.pathname.split('/')[2] || 'default'\<close>\<close>
  "clientIdOf path =
     (case drop 2 (split_on CHR ''/'' path) of
        [] \<Rightarrow> ''default''
      | c # _ \<Rightarrow> if c = [] then ''default'' else c)"

definition fetch ::
  "(string \<Rightarrow> 8 word list) \<Rightarrow> number \<Rightarrow> Request \<Rightarrow> Room \<Rightarrow> Response \<times> Room" where
  "fetch digest now request st =
     (if pathname request = ''/'' \<or> pathname request = ''/health'' then
        (if truthy_string (passphrase request) then
           (case validatePassphrase digest now (the (passphrase request)) st of
              (isValid, st1) \<Rightarrow>
                if \<not> isValid then (\<lparr>body = Text ''Invalid passphrase'', status = 403\<rparr>, st1)
                else (\<lparr>body = Text ''OK'', status = 200\<rparr>, st1))
         else (\<lparr>body = Text ''OK'', status = 200\<rparr>, st))
      else if pathname request = ''/extension/status'' then
        (\<lparr>body = Connected (getExtensionWebSocket st \<noteq> None), status = 200\<rparr>, st)
      else if pathname request = ''/local/status'' then
        (\<lparr>body = Connected (getLocalWebSocket st \<noteq> None), status = 200\<rparr>, st)
      else if \<not> truthy_string (passphrase request) then
        (\<lparr>body = Text ''Passphrase required'', status = 401\<rparr>, st)
      else
        (case validatePassphrase digest now (the (passphrase request)) st of
           (isValid, st1) \<Rightarrow>
             if \<not> isValid then (\<lparr>body = Text ''Invalid passphrase'', status = 403\<rparr>, st1)
             else if pathname request = ''/extension'' then handleExtensionUpgrade request st1
             else if pathname request = ''/local'' \<or> startsWith (pathname request) ''/local/'' then
               handleLocalUpgrade request (clientIdOf (pathname request)) st1
             else if pathname request = ''/mcp'' \<or> startsWith (pathname request) ''/mcp/'' then
               handleMcpUpgrade request (clientIdOf (pathname request)) st1
             else (\<lparr>body = Text ''Not Found'', status = 404\<rparr>, st1)))"

subsection \<open>Fan-out to the agents\<close>

text \<open>
  \<^verbatim>\<open>ws.send\<close> throws on a socket that can no longer send (one whose close has begun but which
  the platform still lists).  Which sockets do so is the platform's business: the predicate
  \<open>bad\<close> is a parameter.  No send of \<^verbatim>\<open>relay.ts\<close> outside \<^verbatim>\<open>handleMcpMessage\<close> sits in a
  \<^verbatim>\<open>try\<close>, so the exception leaves the loop and the method that runs it.
\<close>

definition sendFailure :: error where
  "sendFailure = TypeError ''WebSocket send() failed''"

fun sendAll :: "(ws \<Rightarrow> bool) \<Rightarrow> Outgoing \<Rightarrow> ws list \<Rightarrow> effect list \<times> error option" where
  "sendAll bad m [] = ([], None)"
| "sendAll bad m (w # rest) =
     (if bad w then ([], Some sendFailure)
      else (case sendAll bad m rest of (effs, thrown) \<Rightarrow> (Send w m # effs, thrown)))"

definition broadcastToMcpClients ::
  "(ws \<Rightarrow> bool) \<Rightarrow> CDPEvent \<Rightarrow> Room \<Rightarrow> effect list \<times> error option" where
  "broadcastToMcpClients bad event st = sendAll bad (Event event) (getMcpWebSockets st)"

subsection \<open>Messages from the extension\<close>

fun updateFirst :: "('a \<Rightarrow> bool) \<Rightarrow> ('a \<Rightarrow> 'a) \<Rightarrow> ('k \<times> 'a) list \<Rightarrow> ('k \<times> 'a) list" where
  \<comment> \<open>\<^verbatim>\<open>for (const v of map.values()) { if (P v) { v := f v; break } }\<close>\<close>
  "updateFirst P f [] = []"
| "updateFirst P f ((k, v) # rest) =
     (if P v then (k, f v) # rest else (k, v) # updateFirst P f rest)"

definition trackTarget ::
  "CDPEvent \<Rightarrow> (string \<times> ConnectedTarget) list \<Rightarrow> (string \<times> ConnectedTarget) list" where
  \<comment> \<open>the target lifecycle bookkeeping of \<^verbatim>\<open>handleExtensionMessage\<close> (lines 347 to 383)\<close>
  "trackTarget ev targets =
     (if CDPEvent.methodName ev = ''Target.attachedToTarget'' \<and> CDPEvent.params ev \<noteq> None then
        (let targetParams = the (CDPEvent.params ev) in
         AList.update (EventParams.sessionId targetParams)
           \<lparr>ConnectedTarget.sessionId = EventParams.sessionId targetParams,
            ConnectedTarget.targetId = TargetInfo.targetId (EventParams.targetInfo targetParams),
            ConnectedTarget.targetInfo = EventParams.targetInfo targetParams\<rparr>
           targets)
      else if CDPEvent.methodName ev = ''Target.detachedFromTarget'' \<and> CDPEvent.params ev \<noteq> None then
        AList.delete (EventParams.sessionId (the (CDPEvent.params ev))) targets
      else if CDPEvent.methodName ev = ''Target.targetInfoChanged'' \<and> CDPEvent.params ev \<noteq> None then
        (let infoParams = the (CDPEvent.params ev) in
         updateFirst
           (\<lambda>target. ConnectedTarget.targetId target
                       = TargetInfo.targetId (EventParams.targetInfo infoParams))
           (\<lambda>target. target\<lparr>ConnectedTarget.targetInfo := EventParams.targetInfo infoParams\<rparr>)
           targets)
      else if CDPEvent.methodName ev = ''Page.frameNavigated'' \<and> truthy_string (CDPEvent.sessionId ev)
              \<and> CDPEvent.params ev \<noteq> None then
        (let frameParams = the (CDPEvent.params ev); sid = the (CDPEvent.sessionId ev) in
         if \<not> truthy_string (parentId (frame frameParams)) then
           (case map_of targets sid of
              None \<Rightarrow> targets
            | Some target \<Rightarrow>
                AList.update sid
                  (target\<lparr>ConnectedTarget.targetInfo :=
                     (ConnectedTarget.targetInfo target)
                       \<lparr>TargetInfo.url := Frame.url (frame frameParams),
                        title := (if truthy_string (name (frame frameParams))
                                  then the (name (frame frameParams))
                                  else title (ConnectedTarget.targetInfo target))\<rparr>\<rparr>)
                  targets)
         else targets)
      else targets)"

definition handleExtensionMessage ::
  "(ws \<Rightarrow> bool) \<Rightarrow> ExtensionMessage \<Rightarrow> Room \<Rightarrow> Room \<times> effect list \<times> error option" where
  "handleExtensionMessage bad message st =
     (case message of
        ExtensionResponseMessage mid result err \<Rightarrow>
          (case map_of (pendingRequests st) mid of
             None \<Rightarrow> (st, [], None)
           | Some pending \<Rightarrow>
               (st\<lparr>pendingRequests := AList.delete mid (pendingRequests st)\<rparr>,
                [Settled mid pending
                   (if truthy_string err then Inl (Error (the err)) else Inr result)],
                None))
      | ExtensionPongMessage \<Rightarrow> (st, [], None)
      | ExtensionLogMessage level args \<Rightarrow> (st, [], None)
      | ExtensionEventMessage ev \<Rightarrow>
          (let st1 = st\<lparr>connectedTargets := trackTarget ev (connectedTargets st)\<rparr> in
           case broadcastToMcpClients bad ev st1 of (effs, thrown) \<Rightarrow> (st1, effs, thrown)))"

subsection \<open>Requests to the extension\<close>

definition sendToExtension ::
  "(ws \<Rightarrow> bool) \<Rightarrow> string \<Rightarrow> unknown option \<Rightarrow> string option \<Rightarrow> string \<Rightarrow> number option
     \<Rightarrow> Room \<Rightarrow> (error + nat) \<times> Room \<times> effect list" where
  "sendToExtension bad meth pars sid clientId tmo st =
     (case getExtensionWebSocket st of
        None \<Rightarrow> (Inl (Error ''Extension not connected''), st, [])
      | Some extensionWs \<Rightarrow>
          (let mid = messageId st + 1; st1 = st\<lparr>messageId := mid\<rparr> in
           if bad extensionWs then (Inl sendFailure, st1, [])
           else
             (Inr mid,
              st1\<lparr>pendingRequests :=
                    AList.update mid
                      \<lparr>mcpClientId = clientId,
                       PendingRequest.timeout = (case tmo of None \<Rightarrow> 30000 | Some t \<Rightarrow> t),
                       forMethod = meth\<rparr>
                      (pendingRequests st1)\<rparr>,
              [Send extensionWs (ForwardCDPCommand mid meth pars sid)])))"

definition extensionTimeout :: "nat \<Rightarrow> Room \<Rightarrow> Room \<times> effect list" where
  \<comment> \<open>the \<^verbatim>\<open>setTimeout\<close> callback of \<^verbatim>\<open>sendToExtension\<close>; the timer is cleared whenever the
     entry is settled, so it fires only while the entry is pending\<close>
  "extensionTimeout mid st =
     (case map_of (pendingRequests st) mid of
        None \<Rightarrow> (st, [])
      | Some pending \<Rightarrow>
          (st\<lparr>pendingRequests := AList.delete mid (pendingRequests st)\<rparr>,
           [Settled mid pending
              (Inl (Error (''Extension request timeout after ''
                           @ show_number (PendingRequest.timeout pending) @ ''ms: ''
                           @ forMethod pending)))]))"

definition cleanupExtensionState :: "Room \<Rightarrow> Room \<times> effect list" where
  "cleanupExtensionState st =
     (st\<lparr>connectedTargets := [], pendingRequests := []\<rparr>,
      map (\<lambda>(mid, pending). Settled mid pending (Inl (Error ''Extension connection closed'')))
        (pendingRequests st))"

subsection \<open>The local client: requests, the ledger of read times\<close>

definition sendToLocalClient ::
  "(ws \<Rightarrow> bool) \<Rightarrow> LocalCommand \<Rightarrow> number option \<Rightarrow> Awaiter \<Rightarrow> Room
     \<Rightarrow> (error + nat) \<times> Room \<times> effect list" where
  "sendToLocalClient bad command tmo waiting st =
     (case getLocalWebSocket st of
        None \<Rightarrow> (Inl (Error ''Local client not connected''), st, [])
      | Some localWs \<Rightarrow>
          (let mid = localMessageId st + 1; st1 = st\<lparr>localMessageId := mid\<rparr> in
           if bad localWs then (Inl sendFailure, st1, [])
           else
             (Inr mid,
              st1\<lparr>pendingLocalRequests :=
                    AList.update mid
                      \<lparr>awaiter = waiting,
                       PendingLocalRequest.timeout = (case tmo of None \<Rightarrow> 30000 | Some t \<Rightarrow> t),
                       localMethod = LocalCommand.methodName command\<rparr>
                      (pendingLocalRequests st1)\<rparr>,
              [Send localWs (LocalCommandMessage mid command)])))"

definition mtimeOf :: "LocalResult \<Rightarrow> number option" where
  \<comment> \<open>\<^verbatim>\<open>result.mtime\<close>\<close>
  "mtimeOf r = (case r of LocalReadResult c m \<Rightarrow> Some m | LocalWriteResult m \<Rightarrow> Some m
                | LocalBashResult out err code \<Rightarrow> None)"

definition resume ::
  "nat \<Rightarrow> PendingLocalRequest \<Rightarrow> error + LocalResult option \<Rightarrow> Room \<Rightarrow> Room \<times> effect list" where
  \<comment> \<open>what follows the \<^verbatim>\<open>await\<close> in \<^verbatim>\<open>readFile\<close>, \<^verbatim>\<open>writeFile\<close> and
     \<^verbatim>\<open>executeBash\<close>: a rejection is rethrown; a result is recorded by the file methods\<close>
  "resume mid pending outcome st =
     (case outcome of
        Inl e \<Rightarrow> (st, [SettledLocal mid pending (Inl e)])
      | Inr result \<Rightarrow>
          (case awaiter pending of
             AwaitReadFile path \<Rightarrow>
               (case result of
                  None \<Rightarrow>
                    (st, [SettledLocal mid pending
                            (Inl (TypeError ''Cannot read properties of undefined''))])
                | Some r \<Rightarrow>
                    (st\<lparr>fileReadTimestamps := (fileReadTimestamps st)(path := mtimeOf r)\<rparr>,
                     [SettledLocal mid pending (Inr result)]))
           | AwaitWriteFile path \<Rightarrow>
               (case result of
                  None \<Rightarrow>
                    (st, [SettledLocal mid pending
                            (Inl (TypeError ''Cannot read properties of undefined''))])
                | Some r \<Rightarrow>
                    (st\<lparr>fileReadTimestamps := (fileReadTimestamps st)(path := mtimeOf r)\<rparr>,
                     [SettledLocal mid pending (Inr result)]))
           | AwaitExecuteBash \<Rightarrow> (st, [SettledLocal mid pending (Inr result)])
           | AwaitCaller \<Rightarrow> (st, [SettledLocal mid pending (Inr result)])))"

definition handleLocalMessage :: "LocalMessage \<Rightarrow> Room \<Rightarrow> Room \<times> effect list" where
  "handleLocalMessage message st =
     (case message of
        LocalResponse mid result err \<Rightarrow>
          (case map_of (pendingLocalRequests st) mid of
             None \<Rightarrow> (st, [])
           | Some pending \<Rightarrow>
               resume mid pending
                 (if truthy_string err then Inl (Error (the err)) else Inr result)
                 (st\<lparr>pendingLocalRequests := AList.delete mid (pendingLocalRequests st)\<rparr>))
      | LocalPongMessage \<Rightarrow> (st, [])
      | LocalLogMessage level args \<Rightarrow> (st, []))"

definition localTimeout :: "nat \<Rightarrow> Room \<Rightarrow> Room \<times> effect list" where
  \<comment> \<open>the \<^verbatim>\<open>setTimeout\<close> callback of \<^verbatim>\<open>sendToLocalClient\<close>\<close>
  "localTimeout mid st =
     (case map_of (pendingLocalRequests st) mid of
        None \<Rightarrow> (st, [])
      | Some pending \<Rightarrow>
          resume mid pending
            (Inl (Error (''Local client request timeout after ''
                         @ show_number (PendingLocalRequest.timeout pending) @ ''ms: ''
                         @ localMethod pending)))
            (st\<lparr>pendingLocalRequests := AList.delete mid (pendingLocalRequests st)\<rparr>))"

fun resumeAll ::
  "(nat \<times> PendingLocalRequest) list \<Rightarrow> error \<Rightarrow> Room \<Rightarrow> Room \<times> effect list" where
  "resumeAll [] e st = (st, [])"
| "resumeAll ((mid, pending) # rest) e st =
     (case resume mid pending (Inl e) st of
        (st1, effs1) \<Rightarrow> (case resumeAll rest e st1 of (st2, effs2) \<Rightarrow> (st2, effs1 @ effs2)))"

definition cleanupLocalState :: "Room \<Rightarrow> Room \<times> effect list" where
  "cleanupLocalState st =
     resumeAll (pendingLocalRequests st) (Error ''Local client connection closed'')
       (st\<lparr>fileReadTimestamps := (\<lambda>_. None), pendingLocalRequests := []\<rparr>)"

definition readFile ::
  "(ws \<Rightarrow> bool) \<Rightarrow> string \<Rightarrow> Room \<Rightarrow> (error + nat) \<times> Room \<times> effect list" where
  "readFile bad path st =
     sendToLocalClient bad
       \<lparr>LocalCommand.methodName = ''file.read'', LocalCommand.params = LocalReadParams path\<rparr>
       None (AwaitReadFile path) st"

definition writeFile ::
  "(ws \<Rightarrow> bool) \<Rightarrow> string \<Rightarrow> string \<Rightarrow> Room \<Rightarrow> (error + nat) \<times> Room \<times> effect list" where
  "writeFile bad path content st =
     (case fileReadTimestamps st path of
        None \<Rightarrow>
          (Inl (Error (''Cannot write to '' @ path
             @ '': file has not been read yet. Read the file first to ensure you have the latest content.'')),
           st, [])
      | Some lastReadMtime \<Rightarrow>
          sendToLocalClient bad
            \<lparr>LocalCommand.methodName = ''file.write'',
             LocalCommand.params = LocalWriteParams path content (Some lastReadMtime)\<rparr>
            None (AwaitWriteFile path) st)"

definition optionsWorkdir :: "BashOptions option \<Rightarrow> string option" where
  \<comment> \<open>\<^verbatim>\<open>options?.workdir\<close>\<close>
  "optionsWorkdir opts = (case opts of None \<Rightarrow> None | Some opt \<Rightarrow> workdir opt)"

definition optionsTimeout :: "BashOptions option \<Rightarrow> number option" where
  \<comment> \<open>\<^verbatim>\<open>options?.timeout\<close>\<close>
  "optionsTimeout opts = (case opts of None \<Rightarrow> None | Some opt \<Rightarrow> BashOptions.timeout opt)"

definition executeBash ::
  "(ws \<Rightarrow> bool) \<Rightarrow> string \<Rightarrow> BashOptions option \<Rightarrow> Room
     \<Rightarrow> (error + nat) \<times> Room \<times> effect list" where
  "executeBash bad command opts st =
     sendToLocalClient bad
       \<lparr>LocalCommand.methodName = ''bash.execute'',
        LocalCommand.params = LocalBashParams command (optionsWorkdir opts) (optionsTimeout opts)\<rparr>
       (Some (if truthy_number (optionsTimeout opts) then the (optionsTimeout opts) + 5000
              else 30000))
       AwaitExecuteBash st"

definition handleBashExecute_timeout :: "LocalParams \<Rightarrow> number" where
  \<comment> \<open>\<^verbatim>\<open>pcr-local/src/index.ts\<close>, \<^verbatim>\<open>handleBashExecute\<close>:
     \<^verbatim>\<open>const timeout = params.timeout || 30000\<close>, after which the child is killed\<close>
  "handleBashExecute_timeout ps =
     (case ps of
        LocalBashParams command wd tmo \<Rightarrow> if truthy_number tmo then the tmo else 30000
      | _ \<Rightarrow> 30000)"

subsection \<open>Socket close and keep-alive\<close>

definition webSocketClose :: "string list \<Rightarrow> Room \<Rightarrow> Room \<times> effect list" where
  \<comment> \<open>\<open>tags\<close> is \<^verbatim>\<open>this.ctx.getTags(ws)\<close> of the socket that closed\<close>
  "webSocketClose tags st =
     (case (if ''extension'' \<in> set tags then
              (case cleanupExtensionState st of
                 (s, effs) \<Rightarrow>
                   (s, effs @ map (\<lambda>mcpWs. Close mcpWs 1000 ''Extension disconnected'')
                                (getMcpWebSockets s)))
            else (st, [])) of
        (st1, effs1) \<Rightarrow>
          (case (if list_ex (\<lambda>t. startsWith t ''local:'') tags then cleanupLocalState st1
                 else (st1, [])) of
             (st2, effs2) \<Rightarrow>
               (if getExtensionWebSocket st2 = None \<and> getLocalWebSocket st2 = None
                then stopPingInterval st2 else st2,
                effs1 @ effs2)))"

definition pingTick :: "(ws \<Rightarrow> bool) \<Rightarrow> Room \<Rightarrow> effect list \<times> error option" where
  \<comment> \<open>the \<^verbatim>\<open>setInterval\<close> callback of \<^verbatim>\<open>startPingInterval\<close>\<close>
  "pingTick bad st =
     (case (case getExtensionWebSocket st of
              None \<Rightarrow> ([], None)
            | Some extensionWs \<Rightarrow> sendAll bad Ping [extensionWs]) of
        (effs1, Some e) \<Rightarrow> (effs1, Some e)
      | (effs1, None) \<Rightarrow>
          (case getLocalWebSocket st of
             None \<Rightarrow> (effs1, None)
           | Some localWs \<Rightarrow>
               (case sendAll bad Ping [localWs] of (effs2, thrown) \<Rightarrow> (effs1 @ effs2, thrown))))"

subsection \<open>The life of a room\<close>

text \<open>
  Everything that can happen to a room: an HTTP request, a parsed message from the socket
  tagged \<^verbatim>\<open>extension\<close> or \<^verbatim>\<open>local:\<close>, the close of a socket (the platform has dropped it
  from its list when \<^verbatim>\<open>webSocketClose\<close> runs), a timer, and a call of one of the methods that
  dispatch a request.  \<^verbatim>\<open>handleMcpMessage\<close> and \<^verbatim>\<open>routeCdpCommand\<close> write no field of the room
  except through \<^verbatim>\<open>sendToExtension\<close>, which stands for them here.  Each input comes with the
  sockets whose \<^verbatim>\<open>send\<close> throws at that moment.
\<close>

datatype input =
    Fetch number Request
  | FromExtension ExtensionMessage
  | FromLocal LocalMessage
  | Closed ws
  | ExtensionTimeoutFired nat
  | LocalTimeoutFired nat
  | PingTimerFired
  | CallSendToExtension string "unknown option" "string option" string "number option"
  | CallSendToLocalClient LocalCommand "number option"
  | CallReadFile string
  | CallWriteFile string string
  | CallExecuteBash string "BashOptions option"

definition thrownEffects :: "error option \<Rightarrow> effect list" where
  "thrownEffects thrown = (case thrown of None \<Rightarrow> [] | Some e \<Rightarrow> [Thrown e])"

definition returned :: "(error + nat) \<times> Room \<times> effect list \<Rightarrow> Room \<times> effect list" where
  "returned r =
     (case r of (Inl e, st, effs) \<Rightarrow> (st, effs @ [Thrown e]) | (Inr mid, st, effs) \<Rightarrow> (st, effs))"

definition step ::
  "(string \<Rightarrow> 8 word list) \<Rightarrow> (ws \<Rightarrow> bool) \<times> input \<Rightarrow> Room \<Rightarrow> Room \<times> effect list" where
  "step digest x st =
     (case x of (bad, inp) \<Rightarrow>
        (case inp of
           Fetch now request \<Rightarrow>
             (case fetch digest now request st of (response, st1) \<Rightarrow> (st1, [Responded response]))
         | FromExtension message \<Rightarrow>
             (case handleExtensionMessage bad message st of
                (st1, effs, thrown) \<Rightarrow> (st1, effs @ thrownEffects thrown))
         | FromLocal message \<Rightarrow> handleLocalMessage message st
         | Closed w \<Rightarrow>
             webSocketClose (getTags w st)
               (st\<lparr>sockets := filter (\<lambda>(w', tags). w' \<noteq> w) (sockets st)\<rparr>)
         | ExtensionTimeoutFired mid \<Rightarrow> extensionTimeout mid st
         | LocalTimeoutFired mid \<Rightarrow> localTimeout mid st
         | PingTimerFired \<Rightarrow>
             (if pingInterval st
              then (case pingTick bad st of (effs, thrown) \<Rightarrow> (st, effs @ thrownEffects thrown))
              else (st, []))
         | CallSendToExtension meth pars sid clientId tmo \<Rightarrow>
             returned (sendToExtension bad meth pars sid clientId tmo st)
         | CallSendToLocalClient command tmo \<Rightarrow>
             returned (sendToLocalClient bad command tmo AwaitCaller st)
         | CallReadFile path \<Rightarrow> returned (readFile bad path st)
         | CallWriteFile path content \<Rightarrow> returned (writeFile bad path content st)
         | CallExecuteBash command opts \<Rightarrow> returned (executeBash bad command opts st)))"

fun run ::
  "(string \<Rightarrow> 8 word list) \<Rightarrow> ((ws \<Rightarrow> bool) \<times> input) list \<Rightarrow> Room \<Rightarrow> Room \<times> effect list" where
  "run digest [] st = (st, [])"
| "run digest (x # xs) st =
     (case step digest x st of
        (st1, effs1) \<Rightarrow> (case run digest xs st1 of (st2, effs2) \<Rightarrow> (st2, effs1 @ effs2)))"

subsection \<open>Reading the effects\<close>

fun forwardedId :: "effect \<Rightarrow> nat list" where
  "forwardedId (Send w (ForwardCDPCommand mid meth pars sid)) = [mid]"
| "forwardedId e = []"

fun localId :: "effect \<Rightarrow> nat list" where
  "localId (Send w (LocalCommandMessage mid command)) = [mid]"
| "localId e = []"

definition extensionIds :: "effect list \<Rightarrow> nat list" where
  \<comment> \<open>the correlation ids sent to the extension, in the order of dispatch\<close>
  "extensionIds effs = concat (map forwardedId effs)"

definition localIds :: "effect list \<Rightarrow> nat list" where
  \<comment> \<open>the correlation ids sent to the local client, in the order of dispatch\<close>
  "localIds effs = concat (map localId effs)"

definition received :: "ws \<Rightarrow> Outgoing \<Rightarrow> effect list \<Rightarrow> bool" where
  "received w m effs = (Send w m \<in> set effs)"

subsection \<open>The registry as the spec describes it\<close>








subsection \<open>Sample values\<close>

definition failing :: "ws list \<Rightarrow> ws \<Rightarrow> bool" where
  \<comment> \<open>the sockets of the list throw on \<^verbatim>\<open>send\<close>\<close>
  "failing ws w = (w \<in> set ws)"

definition sampleDigest :: "string \<Rightarrow> 8 word list" where
  \<comment> \<open>a stand-in for SHA-256 in the examples: the bytes of the passphrase\<close>
  "sampleDigest pass = map (\<lambda>c. of_nat (of_char c)) pass"

definition request :: "string \<Rightarrow> string option \<Rightarrow> ws \<Rightarrow> Request" where
  "request path pass w = \<lparr>pathname = path, passphrase = pass, server = w\<rparr>"

definition info :: "string \<Rightarrow> string \<Rightarrow> string \<Rightarrow> TargetInfo" where
  "info tid ttl u =
     \<lparr>TargetInfo.targetId = tid, type = ''page'', title = ttl, TargetInfo.url = u,
      attached = None, browserContextId = None\<rparr>"

definition noFrame :: Frame where
  "noFrame = \<lparr>Frame.url = [], name = None, parentId = None\<rparr>"


definition detachedEvent :: "string \<Rightarrow> CDPEvent" where
  "detachedEvent s =
     \<lparr>CDPEvent.methodName = ''Target.detachedFromTarget'',
      CDPEvent.params = Some \<lparr>EventParams.sessionId = s,
                              EventParams.targetInfo = info [] [] [], frame = noFrame\<rparr>,
      CDPEvent.sessionId = None\<rparr>"



definition twoAgents :: Room where
  \<comment> \<open>an extension and the agents \<open>a\<close> and \<open>b\<close>, admitted in this order\<close>
  "twoAgents =
     acceptWebSocket 3 [''mcp:b'']
       (acceptWebSocket 2 [''mcp:a''] (acceptWebSocket 1 [''extension''] fresh))"

definition busyRoom :: Room where
  \<comment> \<open>a room in mid-life: all peers admitted, one command in flight to the extension, one
     file read and one shell command in flight to the local client\<close>
  "busyRoom = fst (run sampleDigest
     [(failing [], Fetch 1 (request ''/extension'' (Some ''p'') 1)),
      (failing [], Fetch 2 (request ''/mcp/a'' (Some ''p'') 2)),
      (failing [], Fetch 3 (request ''/mcp/b'' (Some ''p'') 3)),
      (failing [], Fetch 4 (request ''/local'' (Some ''p'') 4)),
      (failing [], CallSendToExtension ''Page.enable'' None None ''a'' None),
      (failing [], CallReadFile ''/tmp/x''),
      (failing [], FromLocal (LocalResponse 1 (Some (LocalReadResult ''old'' 100)) None)),
      (failing [], CallExecuteBash ''ls'' None)] fresh)"



definition reconnectTrace :: "((ws \<Rightarrow> bool) \<times> input) list" where
  "reconnectTrace =
     [(failing [], Fetch 1 (request ''/extension'' (Some ''p'') 1)),
      (failing [], Fetch 2 (request ''/local'' (Some ''p'') 2)),
      (failing [], CallSendToExtension ''Page.enable'' None None ''a'' None),
      (failing [], CallReadFile ''/tmp/x''),
      (failing [], Closed 1),
      (failing [], Closed 2),
      (failing [], Fetch 3 (request ''/extension'' (Some ''p'') 3)),
      (failing [], Fetch 4 (request ''/local/home'' (Some ''p'') 4)),
      (failing [], CallSendToExtension ''Page.reload'' None None ''a'' None),
      (failing [], CallExecuteBash ''ls'' None),
      (failing [], CallSendToExtension ''Page.close'' None None ''b'' None)]"

section \<open>Facts about the operations\<close>

lemmas eval_defs = fresh_def request_def failing_def sampleDigest_def
  step_def fetch_def validatePassphrase_def hashPassphrase_def hex2_def hexdigit_def
  truthy_string_def truthy_number_def startsWith_def clientIdOf_def
  handleExtensionUpgrade_def handleMcpUpgrade_def handleLocalUpgrade_def
  getExtensionWebSocket_def getMcpWebSocket_def getMcpWebSockets_def getLocalWebSocket_def
  acceptWebSocket_def startPingInterval_def stopPingInterval_def
  returned_def sendToExtension_def sendToLocalClient_def readFile_def writeFile_def
  executeBash_def handleLocalMessage_def resume_def mtimeOf_def optionsTimeout_def
  optionsWorkdir_def handleExtensionMessage_def

lemma busyRoom_eq:
  "busyRoom =
     \<lparr>auth = Some \<lparr>passphraseHash = ''70'', createdAt = 1\<rparr>,
      sockets = [(1, [''extension'']), (2, [''mcp:a'']), (3, [''mcp:b'']),
                 (4, [''local:default''])],
      connectedTargets = [],
      pendingRequests =
        [(1, \<lparr>mcpClientId = ''a'', PendingRequest.timeout = 30000,
              forMethod = ''Page.enable''\<rparr>)],
      pendingLocalRequests =
        [(2, \<lparr>awaiter = AwaitExecuteBash, PendingLocalRequest.timeout = 30000,
              localMethod = ''bash.execute''\<rparr>)],
      fileReadTimestamps = (\<lambda>_. None)(''/tmp/x'' := Some 100),
      messageId = 1, localMessageId = 2, pingInterval = True\<rparr>"
  by (simp add: busyRoom_def eval_defs)

subsection \<open>The auth record is written once\<close>

lemma resume_auth [simp]: "auth (fst (resume mid p out st)) = auth st"
  by (simp add: resume_def split: sum.splits Awaiter.splits option.splits)

lemma resumeAll_auth [simp]: "auth (fst (resumeAll ps e st)) = auth st"
  by (induction ps arbitrary: st) (auto simp: case_prod_beta)

lemma upgrade_auth [simp]:
  "auth (snd (handleExtensionUpgrade req st)) = auth st"
  "auth (snd (handleLocalUpgrade req c st)) = auth st"
  "auth (snd (handleMcpUpgrade req c st)) = auth st"
  by (simp_all add: handleExtensionUpgrade_def handleLocalUpgrade_def handleMcpUpgrade_def
      acceptWebSocket_def startPingInterval_def stopPingInterval_def split: option.splits)

lemma validate_stored:
  "auth st = Some a \<Longrightarrow>
     validatePassphrase digest now q st = (hashPassphrase digest q = passphraseHash a, st)"
  by (simp add: validatePassphrase_def)

lemma fetch_auth: "auth st = Some a \<Longrightarrow> auth (snd (fetch digest now req st)) = Some a"
  by (simp add: fetch_def validate_stored)

lemma handleExtensionMessage_auth [simp]:
  "auth (fst (handleExtensionMessage bad m st)) = auth st"
  by (simp add: handleExtensionMessage_def case_prod_beta Let_def
      split: ExtensionMessage.splits option.splits)

lemma handleLocalMessage_auth [simp]: "auth (fst (handleLocalMessage m st)) = auth st"
  by (simp add: handleLocalMessage_def split: LocalMessage.splits option.splits)

lemma webSocketClose_auth [simp]: "auth (fst (webSocketClose tags st)) = auth st"
  by (simp add: webSocketClose_def cleanupExtensionState_def cleanupLocalState_def
      stopPingInterval_def case_prod_beta)

lemma timeouts_auth [simp]:
  "auth (fst (extensionTimeout mid st)) = auth st"
  "auth (fst (localTimeout mid st)) = auth st"
  by (simp_all add: extensionTimeout_def localTimeout_def split: option.splits)

lemma sendToLocalClient_auth [simp]:
  "auth (fst (returned (sendToLocalClient bad c t a st))) = auth st"
  by (simp add: returned_def sendToLocalClient_def Let_def split: option.splits)

lemma sendToExtension_auth [simp]:
  "auth (fst (returned (sendToExtension bad m p s c t st))) = auth st"
  by (simp add: returned_def sendToExtension_def Let_def split: option.splits)

lemma calls_auth [simp]:
  "auth (fst (returned (readFile bad path st))) = auth st"
  "auth (fst (returned (writeFile bad path content st))) = auth st"
  "auth (fst (returned (executeBash bad command opts st))) = auth st"
  by (simp_all add: readFile_def writeFile_def executeBash_def split: option.splits,
      simp add: returned_def)

lemma step_auth: "auth st = Some a \<Longrightarrow> auth (fst (step digest x st)) = Some a"
  by (cases x; cases "snd x") (simp_all add: step_def case_prod_beta fetch_auth)

lemma run_auth: "auth st = Some a \<Longrightarrow> auth (fst (run digest xs st)) = Some a"
proof (induction xs arbitrary: st)
  case Nil
  then show ?case by simp
next
  case (Cons x xs)
  from Cons.prems have "auth (fst (step digest x st)) = Some a" by (rule step_auth)
  then have "auth (fst (run digest xs (fst (step digest x st)))) = Some a" by (rule Cons.IH)
  then show ?case by (simp add: case_prod_beta)
qed

subsection \<open>The hexadecimal rendering loses nothing\<close>

lemma hexdigit_inj: "m < 16 \<Longrightarrow> n < 16 \<Longrightarrow> hexdigit m = hexdigit n \<Longrightarrow> m = n"
proof -
  assume m: "m < 16" and n: "n < 16" and eq: "hexdigit m = hexdigit n"
  have d: "distinct ''0123456789abcdef''" by simp
  have l: "length ''0123456789abcdef'' = 16" by simp
  from eq have "''0123456789abcdef'' ! m = ''0123456789abcdef'' ! n"
    by (simp only: hexdigit_def)
  with d m n l show "m = n" by (simp only: nth_eq_iff_index_eq)
qed

lemma hex2_inj: "hex2 a = hex2 b \<Longrightarrow> a = b"
proof -
  assume eq: "hex2 a = hex2 b"
  have a: "unat a < 256" using unsigned_less [of a] by simp
  have b: "unat b < 256" using unsigned_less [of b] by simp
  from eq have h: "hexdigit (unat a div 16) = hexdigit (unat b div 16)"
    and l: "hexdigit (unat a mod 16) = hexdigit (unat b mod 16)"
    by (simp_all add: hex2_def)
  from a have ha: "unat a div 16 < 16" by simp
  from b have hb: "unat b div 16 < 16" by simp
  have hd: "unat a div 16 = unat b div 16" using ha hb h by (rule hexdigit_inj)
  have la: "unat a mod 16 < 16" and lb: "unat b mod 16 < 16" by simp_all
  have md: "unat a mod 16 = unat b mod 16" using la lb l by (rule hexdigit_inj)
  have "unat a = 16 * (unat a div 16) + unat a mod 16" by simp
  also have "\<dots> = 16 * (unat b div 16) + unat b mod 16" by (simp only: hd md)
  also have "\<dots> = unat b" by simp
  finally show "a = b" by (simp add: word_unat_eq_iff)
qed

lemma hex_concat_inj: "concat (map hex2 xs) = concat (map hex2 ys) \<Longrightarrow> xs = ys"
proof (induction xs arbitrary: ys)
  case Nil
  then show ?case by (cases ys) (simp_all add: hex2_def)
next
  case (Cons x xs)
  then obtain y ys' where ys: "ys = y # ys'" by (cases ys) (simp_all add: hex2_def)
  have len: "length (hex2 x) = length (hex2 y)" by (simp add: hex2_def)
  from Cons.prems ys have "hex2 x @ concat (map hex2 xs) = hex2 y @ concat (map hex2 ys')"
    by simp
  with len have "hex2 x = hex2 y" and rest: "concat (map hex2 xs) = concat (map hex2 ys')"
    by simp_all
  then have "x = y" by (simp add: hex2_inj)
  moreover from rest have "xs = ys'" by (rule Cons.IH)
  ultimately show ?case using ys by simp
qed

lemma hashPassphrase_eq_iff:
  "(hashPassphrase digest q = hashPassphrase digest p) = (digest q = digest p)"
  by (auto simp: hashPassphrase_def dest: hex_concat_inj)

lemma fetch_mismatch:
  assumes "auth st = Some a" and "passphrase req = Some q" and "q \<noteq> []"
    and "hashPassphrase digest q \<noteq> passphraseHash a"
    and "pathname req \<notin> {''/extension/status'', ''/local/status''}"
  shows "fetch digest now req st = (\<lparr>body = Text ''Invalid passphrase'', status = 403\<rparr>, st)"
  using assms by (simp add: fetch_def validate_stored truthy_string_def)

subsection \<open>The send loop\<close>

lemma sendAll_takeWhile:
  "fst (sendAll bad m ws) = map (\<lambda>w. Send w m) (takeWhile (\<lambda>w. \<not> bad w) ws)"
  by (induction ws) (auto split: prod.splits)

lemma sendAll_thrown:
  "snd (sendAll bad m ws) = (if list_ex bad ws then Some sendFailure else None)"
  by (induction ws) (auto split: prod.splits)

subsection \<open>Dispatch to the local client\<close>

lemma sendToLocalClient_ok:
  assumes "getLocalWebSocket st = Some localWs" and "\<not> bad localWs"
  shows "sendToLocalClient bad command tmo waiting st =
     (Inr (localMessageId st + 1),
      st\<lparr>localMessageId := localMessageId st + 1,
         pendingLocalRequests :=
           AList.update (localMessageId st + 1)
             \<lparr>awaiter = waiting,
              PendingLocalRequest.timeout = (case tmo of None \<Rightarrow> 30000 | Some t \<Rightarrow> t),
              localMethod = LocalCommand.methodName command\<rparr>
             (pendingLocalRequests st)\<rparr>,
      [Send localWs (LocalCommandMessage (localMessageId st + 1) command)])"
  using assms by (simp add: sendToLocalClient_def Let_def)

lemma map_of_update_same [simp]: "map_of (AList.update k v al) k = Some v"
  by (simp add: update_conv')

lemma completion_records_mtime:
  assumes "map_of (pendingLocalRequests st) mid = Some pending"
    and "awaiter pending = AwaitReadFile path \<or> awaiter pending = AwaitWriteFile path"
    and "\<not> truthy_string err" and "mtimeOf r = Some m"
  shows "fileReadTimestamps (fst (handleLocalMessage (LocalResponse mid (Some r) err) st)) path = Some m"
  using assms by (auto simp: handleLocalMessage_def resume_def)

lemma map_of_delete_same [simp]: "map_of (AList.delete k al) k = None"
  by (simp add: delete_conv')

lemma executeBash_explicit_timeout:
  assumes "getLocalWebSocket st = Some localWs" and "\<not> bad localWs"
    and "optionsTimeout opts = Some t" and "t \<noteq> 0"
  shows "map_option PendingLocalRequest.timeout
           (map_of (pendingLocalRequests (fst (snd (executeBash bad command opts st))))
              (localMessageId st + 1))
         = Some (handleBashExecute_timeout
                   (LocalBashParams command (optionsWorkdir opts) (optionsTimeout opts)) + 5000)"
  using assms
  by (simp add: executeBash_def sendToLocalClient_ok handleBashExecute_timeout_def truthy_number_def)

lemma executeBash_default_timeout:
  assumes "getLocalWebSocket st = Some localWs" and "\<not> bad localWs"
    and "\<not> truthy_number (optionsTimeout opts)"
  shows "map_option PendingLocalRequest.timeout
           (map_of (pendingLocalRequests (fst (snd (executeBash bad command opts st))))
              (localMessageId st + 1))
         = Some (handleBashExecute_timeout
                   (LocalBashParams command (optionsWorkdir opts) (optionsTimeout opts)))"
  using assms
  by (simp add: executeBash_def sendToLocalClient_ok handleBashExecute_timeout_def)

subsection \<open>Correlation ids and the pending tables\<close>

lemma extensionIds_simps [simp]:
  "extensionIds [] = []"
  "extensionIds (e # es) = forwardedId e @ extensionIds es"
  "extensionIds (es @ fs) = extensionIds es @ extensionIds fs"
  by (simp_all add: extensionIds_def)

lemma localIds_simps [simp]:
  "localIds [] = []"
  "localIds (e # es) = localId e @ localIds es"
  "localIds (es @ fs) = localIds es @ localIds fs"
  by (simp_all add: localIds_def)

lemma ids_thrownEffects [simp]:
  "extensionIds (thrownEffects t) = []" "localIds (thrownEffects t) = []"
  by (simp_all add: thrownEffects_def split: option.splits)

lemma ids_sendAll_Event [simp]:
  "extensionIds (fst (sendAll bad (Event ev) ws)) = []"
  "localIds (fst (sendAll bad (Event ev) ws)) = []"
  by (induction ws) (simp_all add: case_prod_beta)

lemma ids_sendAll_Ping [simp]:
  "extensionIds (fst (sendAll bad Ping ws)) = []"
  "localIds (fst (sendAll bad Ping ws)) = []"
  by (induction ws) (simp_all add: case_prod_beta)

lemma ids_map_Settled [simp]:
  "extensionIds (map (\<lambda>(mid, pending). Settled mid pending out) ps) = []"
  "localIds (map (\<lambda>(mid, pending). Settled mid pending out) ps) = []"
  by (induction ps) (simp_all add: case_prod_beta)

lemma ids_map_Close [simp]:
  "extensionIds (map (\<lambda>w. Close w c r) ws) = []"
  "localIds (map (\<lambda>w. Close w c r) ws) = []"
  by (induction ws) simp_all

lemma resume_frame [simp]:
  "messageId (fst (resume mid p out st)) = messageId st"
  "localMessageId (fst (resume mid p out st)) = localMessageId st"
  "pendingRequests (fst (resume mid p out st)) = pendingRequests st"
  "pendingLocalRequests (fst (resume mid p out st)) = pendingLocalRequests st"
  "extensionIds (snd (resume mid p out st)) = []"
  "localIds (snd (resume mid p out st)) = []"
  by (simp_all add: resume_def split: sum.splits Awaiter.splits option.splits)

lemma resumeAll_frame [simp]:
  "messageId (fst (resumeAll ps e st)) = messageId st"
  "localMessageId (fst (resumeAll ps e st)) = localMessageId st"
  "pendingRequests (fst (resumeAll ps e st)) = pendingRequests st"
  "pendingLocalRequests (fst (resumeAll ps e st)) = pendingLocalRequests st"
  "extensionIds (snd (resumeAll ps e st)) = []"
  "localIds (snd (resumeAll ps e st)) = []"
  by (induction ps arbitrary: st; auto simp: case_prod_beta)+

lemma upgrade_frame [simp]:
  "messageId (snd (handleExtensionUpgrade req st)) = messageId st
   \<and> localMessageId (snd (handleExtensionUpgrade req st)) = localMessageId st
   \<and> pendingRequests (snd (handleExtensionUpgrade req st)) = pendingRequests st
   \<and> pendingLocalRequests (snd (handleExtensionUpgrade req st)) = pendingLocalRequests st"
  "messageId (snd (handleLocalUpgrade req c st)) = messageId st
   \<and> localMessageId (snd (handleLocalUpgrade req c st)) = localMessageId st
   \<and> pendingRequests (snd (handleLocalUpgrade req c st)) = pendingRequests st
   \<and> pendingLocalRequests (snd (handleLocalUpgrade req c st)) = pendingLocalRequests st"
  "messageId (snd (handleMcpUpgrade req c st)) = messageId st
   \<and> localMessageId (snd (handleMcpUpgrade req c st)) = localMessageId st
   \<and> pendingRequests (snd (handleMcpUpgrade req c st)) = pendingRequests st
   \<and> pendingLocalRequests (snd (handleMcpUpgrade req c st)) = pendingLocalRequests st"
  by (simp_all add: handleExtensionUpgrade_def handleLocalUpgrade_def handleMcpUpgrade_def
      acceptWebSocket_def startPingInterval_def stopPingInterval_def split: option.splits)

lemma validate_frame [simp]:
  "messageId (snd (validatePassphrase digest now q st)) = messageId st
   \<and> localMessageId (snd (validatePassphrase digest now q st)) = localMessageId st
   \<and> pendingRequests (snd (validatePassphrase digest now q st)) = pendingRequests st
   \<and> pendingLocalRequests (snd (validatePassphrase digest now q st)) = pendingLocalRequests st"
  by (simp add: validatePassphrase_def split: option.splits)

lemma fetch_frame [simp]:
  "messageId (snd (fetch digest now req st)) = messageId st
   \<and> localMessageId (snd (fetch digest now req st)) = localMessageId st
   \<and> pendingRequests (snd (fetch digest now req st)) = pendingRequests st
   \<and> pendingLocalRequests (snd (fetch digest now req st)) = pendingLocalRequests st"
  by (simp add: fetch_def case_prod_beta)

lemmas keys_simps [simp] = dom_update dom_delete_subset distinct_update distinct_delete

lemma handleExtensionMessage_frame:
  "messageId (fst (handleExtensionMessage bad m st)) = messageId st
   \<and> localMessageId (fst (handleExtensionMessage bad m st)) = localMessageId st
   \<and> pendingLocalRequests (fst (handleExtensionMessage bad m st)) = pendingLocalRequests st
   \<and> fst ` set (pendingRequests (fst (handleExtensionMessage bad m st)))
       \<subseteq> fst ` set (pendingRequests st)
   \<and> (distinct (map fst (pendingRequests st))
        \<longrightarrow> distinct (map fst (pendingRequests (fst (handleExtensionMessage bad m st)))))
   \<and> extensionIds (fst (snd (handleExtensionMessage bad m st))) = []
   \<and> localIds (fst (snd (handleExtensionMessage bad m st))) = []"
  by (cases m)
     (simp_all add: handleExtensionMessage_def broadcastToMcpClients_def case_prod_beta Let_def
        split: option.splits)

lemma handleLocalMessage_frame:
  "messageId (fst (handleLocalMessage m st)) = messageId st
   \<and> localMessageId (fst (handleLocalMessage m st)) = localMessageId st
   \<and> pendingRequests (fst (handleLocalMessage m st)) = pendingRequests st
   \<and> fst ` set (pendingLocalRequests (fst (handleLocalMessage m st)))
       \<subseteq> fst ` set (pendingLocalRequests st)
   \<and> (distinct (map fst (pendingLocalRequests st))
        \<longrightarrow> distinct (map fst (pendingLocalRequests (fst (handleLocalMessage m st)))))
   \<and> extensionIds (snd (handleLocalMessage m st)) = []
   \<and> localIds (snd (handleLocalMessage m st)) = []"
  by (cases m) (simp_all add: handleLocalMessage_def split: option.splits)

lemma timeout_frame:
  "messageId (fst (extensionTimeout mid st)) = messageId st
   \<and> localMessageId (fst (extensionTimeout mid st)) = localMessageId st
   \<and> pendingLocalRequests (fst (extensionTimeout mid st)) = pendingLocalRequests st
   \<and> fst ` set (pendingRequests (fst (extensionTimeout mid st)))
       \<subseteq> fst ` set (pendingRequests st)
   \<and> (distinct (map fst (pendingRequests st))
        \<longrightarrow> distinct (map fst (pendingRequests (fst (extensionTimeout mid st)))))
   \<and> extensionIds (snd (extensionTimeout mid st)) = []
   \<and> localIds (snd (extensionTimeout mid st)) = []"
  "messageId (fst (localTimeout mid st)) = messageId st
   \<and> localMessageId (fst (localTimeout mid st)) = localMessageId st
   \<and> pendingRequests (fst (localTimeout mid st)) = pendingRequests st
   \<and> fst ` set (pendingLocalRequests (fst (localTimeout mid st)))
       \<subseteq> fst ` set (pendingLocalRequests st)
   \<and> (distinct (map fst (pendingLocalRequests st))
        \<longrightarrow> distinct (map fst (pendingLocalRequests (fst (localTimeout mid st)))))
   \<and> extensionIds (snd (localTimeout mid st)) = []
   \<and> localIds (snd (localTimeout mid st)) = []"
  by (simp_all add: extensionTimeout_def localTimeout_def split: option.splits)

lemma webSocketClose_frame:
  "messageId (fst (webSocketClose tags st)) = messageId st
   \<and> localMessageId (fst (webSocketClose tags st)) = localMessageId st
   \<and> fst ` set (pendingRequests (fst (webSocketClose tags st)))
       \<subseteq> fst ` set (pendingRequests st)
   \<and> (distinct (map fst (pendingRequests st))
        \<longrightarrow> distinct (map fst (pendingRequests (fst (webSocketClose tags st)))))
   \<and> fst ` set (pendingLocalRequests (fst (webSocketClose tags st)))
       \<subseteq> fst ` set (pendingLocalRequests st)
   \<and> (distinct (map fst (pendingLocalRequests st))
        \<longrightarrow> distinct (map fst (pendingLocalRequests (fst (webSocketClose tags st)))))
   \<and> extensionIds (snd (webSocketClose tags st)) = []
   \<and> localIds (snd (webSocketClose tags st)) = []"
  by (simp add: webSocketClose_def cleanupExtensionState_def cleanupLocalState_def
      stopPingInterval_def case_prod_beta)

lemma pingTick_frame:
  "extensionIds (fst (pingTick bad st)) = [] \<and> localIds (fst (pingTick bad st)) = []"
  by (simp add: pingTick_def case_prod_beta split: option.splits)

lemma sendToExtension_frame:
  "localMessageId (fst (snd (sendToExtension bad m p s c t st))) = localMessageId st
   \<and> pendingLocalRequests (fst (snd (sendToExtension bad m p s c t st))) = pendingLocalRequests st
   \<and> localIds (snd (snd (sendToExtension bad m p s c t st))) = []
   \<and> messageId st \<le> messageId (fst (snd (sendToExtension bad m p s c t st)))
   \<and> (extensionIds (snd (snd (sendToExtension bad m p s c t st))) = []
       \<or> extensionIds (snd (snd (sendToExtension bad m p s c t st)))
           = [messageId (fst (snd (sendToExtension bad m p s c t st)))]
         \<and> messageId st < messageId (fst (snd (sendToExtension bad m p s c t st))))
   \<and> fst ` set (pendingRequests (fst (snd (sendToExtension bad m p s c t st))))
       \<subseteq> fst ` set (pendingRequests st)
          \<union> set (extensionIds (snd (snd (sendToExtension bad m p s c t st))))
   \<and> (distinct (map fst (pendingRequests st))
        \<longrightarrow> distinct (map fst (pendingRequests (fst (snd (sendToExtension bad m p s c t st))))))"
  by (simp add: sendToExtension_def Let_def split: option.splits)

lemma sendToLocalClient_frame:
  "messageId (fst (snd (sendToLocalClient bad c t a st))) = messageId st
   \<and> pendingRequests (fst (snd (sendToLocalClient bad c t a st))) = pendingRequests st
   \<and> extensionIds (snd (snd (sendToLocalClient bad c t a st))) = []
   \<and> localMessageId st \<le> localMessageId (fst (snd (sendToLocalClient bad c t a st)))
   \<and> (localIds (snd (snd (sendToLocalClient bad c t a st))) = []
       \<or> localIds (snd (snd (sendToLocalClient bad c t a st)))
           = [localMessageId (fst (snd (sendToLocalClient bad c t a st)))]
         \<and> localMessageId st < localMessageId (fst (snd (sendToLocalClient bad c t a st))))
   \<and> fst ` set (pendingLocalRequests (fst (snd (sendToLocalClient bad c t a st))))
       \<subseteq> fst ` set (pendingLocalRequests st)
          \<union> set (localIds (snd (snd (sendToLocalClient bad c t a st))))
   \<and> (distinct (map fst (pendingLocalRequests st))
        \<longrightarrow> distinct (map fst (pendingLocalRequests (fst (snd (sendToLocalClient bad c t a st))))))"
  by (simp add: sendToLocalClient_def Let_def split: option.splits)

lemma returned_frame [simp]:
  "fst (returned r) = fst (snd r)"
  "extensionIds (snd (returned r)) = extensionIds (snd (snd r))"
  "localIds (snd (returned r)) = localIds (snd (snd r))"
  by (cases r; cases "fst r"; simp add: returned_def)+

lemma calls_unfold:
  "readFile bad path st
     = sendToLocalClient bad
         \<lparr>LocalCommand.methodName = ''file.read'', LocalCommand.params = LocalReadParams path\<rparr>
         None (AwaitReadFile path) st"
  "executeBash bad command opts st
     = sendToLocalClient bad
         \<lparr>LocalCommand.methodName = ''bash.execute'',
          LocalCommand.params = LocalBashParams command (optionsWorkdir opts) (optionsTimeout opts)\<rparr>
         (Some (if truthy_number (optionsTimeout opts) then the (optionsTimeout opts) + 5000
                else 30000))
         AwaitExecuteBash st"
  "writeFile bad path content st
     = (case fileReadTimestamps st path of
          None \<Rightarrow>
            (Inl (Error (''Cannot write to '' @ path
               @ '': file has not been read yet. Read the file first to ensure you have the latest content.'')),
             st, [])
        | Some lastReadMtime \<Rightarrow>
            sendToLocalClient bad
              \<lparr>LocalCommand.methodName = ''file.write'',
               LocalCommand.params = LocalWriteParams path content (Some lastReadMtime)\<rparr>
              None (AwaitWriteFile path) st)"
  by (simp_all add: readFile_def executeBash_def writeFile_def)

lemma step_extension:
  "messageId st \<le> messageId (fst (step digest x st))
   \<and> (extensionIds (snd (step digest x st)) = []
       \<or> extensionIds (snd (step digest x st)) = [messageId (fst (step digest x st))]
         \<and> messageId st < messageId (fst (step digest x st)))
   \<and> fst ` set (pendingRequests (fst (step digest x st)))
       \<subseteq> fst ` set (pendingRequests st) \<union> set (extensionIds (snd (step digest x st)))
   \<and> (distinct (map fst (pendingRequests st))
        \<longrightarrow> distinct (map fst (pendingRequests (fst (step digest x st)))))"
proof (cases x)
  case (Pair bad inp)
  show ?thesis
  proof (cases inp)
    case (Fetch now req)
    then show ?thesis using Pair by (simp add: step_def case_prod_beta)
  next
    case (FromExtension m)
    then show ?thesis using Pair handleExtensionMessage_frame [of bad m st]
      by (simp add: step_def case_prod_beta)
  next
    case (FromLocal m)
    then show ?thesis using Pair handleLocalMessage_frame [of m st]
      by (simp add: step_def)
  next
    case (Closed w)
    then show ?thesis
      using Pair webSocketClose_frame
        [of "getTags w st" "st\<lparr>sockets := filter (\<lambda>(w', tags). w' \<noteq> w) (sockets st)\<rparr>"]
      by (simp add: step_def)
  next
    case (ExtensionTimeoutFired mid)
    then show ?thesis using Pair timeout_frame(1) [of mid st] by (simp add: step_def)
  next
    case (LocalTimeoutFired mid)
    then show ?thesis using Pair timeout_frame(2) [of mid st] by (simp add: step_def)
  next
    case PingTimerFired
    then show ?thesis using Pair pingTick_frame [of bad st]
      by (simp add: step_def case_prod_beta)
  next
    case (CallSendToExtension m p s c t)
    then show ?thesis using Pair sendToExtension_frame [of bad m p s c t st]
      by (simp add: step_def)
  next
    case (CallSendToLocalClient c t)
    then show ?thesis using Pair sendToLocalClient_frame [of bad c t AwaitCaller st]
      by (simp add: step_def)
  next
    case (CallReadFile path)
    then show ?thesis
      using Pair sendToLocalClient_frame [of bad _ None "AwaitReadFile path" st]
      by (simp add: step_def calls_unfold)
  next
    case (CallWriteFile path content)
    then show ?thesis
      using Pair sendToLocalClient_frame [of bad _ None "AwaitWriteFile path" st]
      by (simp add: step_def calls_unfold split: option.splits)
  next
    case (CallExecuteBash command opts)
    then show ?thesis
      using Pair sendToLocalClient_frame [of bad _ _ AwaitExecuteBash st]
      by (simp add: step_def calls_unfold)
  qed
qed

lemma step_local:
  "localMessageId st \<le> localMessageId (fst (step digest x st))
   \<and> (localIds (snd (step digest x st)) = []
       \<or> localIds (snd (step digest x st)) = [localMessageId (fst (step digest x st))]
         \<and> localMessageId st < localMessageId (fst (step digest x st)))
   \<and> fst ` set (pendingLocalRequests (fst (step digest x st)))
       \<subseteq> fst ` set (pendingLocalRequests st) \<union> set (localIds (snd (step digest x st)))
   \<and> (distinct (map fst (pendingLocalRequests st))
        \<longrightarrow> distinct (map fst (pendingLocalRequests (fst (step digest x st)))))"
proof (cases x)
  case (Pair bad inp)
  show ?thesis
  proof (cases inp)
    case (Fetch now req)
    then show ?thesis using Pair by (simp add: step_def case_prod_beta)
  next
    case (FromExtension m)
    then show ?thesis using Pair handleExtensionMessage_frame [of bad m st]
      by (simp add: step_def case_prod_beta)
  next
    case (FromLocal m)
    then show ?thesis using Pair handleLocalMessage_frame [of m st]
      by (simp add: step_def)
  next
    case (Closed w)
    then show ?thesis
      using Pair webSocketClose_frame
        [of "getTags w st" "st\<lparr>sockets := filter (\<lambda>(w', tags). w' \<noteq> w) (sockets st)\<rparr>"]
      by (simp add: step_def)
  next
    case (ExtensionTimeoutFired mid)
    then show ?thesis using Pair timeout_frame(1) [of mid st] by (simp add: step_def)
  next
    case (LocalTimeoutFired mid)
    then show ?thesis using Pair timeout_frame(2) [of mid st] by (simp add: step_def)
  next
    case PingTimerFired
    then show ?thesis using Pair pingTick_frame [of bad st]
      by (simp add: step_def case_prod_beta)
  next
    case (CallSendToExtension m p s c t)
    then show ?thesis using Pair sendToExtension_frame [of bad m p s c t st]
      by (simp add: step_def)
  next
    case (CallSendToLocalClient c t)
    then show ?thesis using Pair sendToLocalClient_frame [of bad c t AwaitCaller st]
      by (simp add: step_def)
  next
    case (CallReadFile path)
    then show ?thesis
      using Pair sendToLocalClient_frame [of bad _ None "AwaitReadFile path" st]
      by (simp add: step_def calls_unfold)
  next
    case (CallWriteFile path content)
    then show ?thesis
      using Pair sendToLocalClient_frame [of bad _ None "AwaitWriteFile path" st]
      by (simp add: step_def calls_unfold split: option.splits)
  next
    case (CallExecuteBash command opts)
    then show ?thesis
      using Pair sendToLocalClient_frame [of bad _ _ AwaitExecuteBash st]
      by (simp add: step_def calls_unfold)
  qed
qed

lemma run_extension:
  "messageId st \<le> messageId (fst (run digest xs st))
   \<and> (\<forall>i \<in> set (extensionIds (snd (run digest xs st))).
         messageId st < i \<and> i \<le> messageId (fst (run digest xs st)))
   \<and> sorted_wrt (<) (extensionIds (snd (run digest xs st)))
   \<and> fst ` set (pendingRequests (fst (run digest xs st)))
       \<subseteq> fst ` set (pendingRequests st) \<union> set (extensionIds (snd (run digest xs st)))
   \<and> (distinct (map fst (pendingRequests st))
        \<longrightarrow> distinct (map fst (pendingRequests (fst (run digest xs st)))))"
proof (induction xs arbitrary: st)
  case Nil
  show ?case by simp
next
  case (Cons x xs)
  let ?s1 = "fst (step digest x st)" and ?e1 = "snd (step digest x st)"
  let ?s2 = "fst (run digest xs ?s1)" and ?e2 = "snd (run digest xs ?s1)"
  have r: "fst (run digest (x # xs) st) = ?s2" "snd (run digest (x # xs) st) = ?e1 @ ?e2"
    by (simp_all add: case_prod_beta)
  note s = step_extension [of st digest x]
  note i = Cons.IH [of ?s1]
  have le: "messageId st \<le> messageId ?s2" using s i by linarith
  have bounds: "\<forall>i \<in> set (extensionIds (?e1 @ ?e2)). messageId st < i \<and> i \<le> messageId ?s2"
    using s i by fastforce
  have sorted: "sorted_wrt (<) (extensionIds (?e1 @ ?e2))"
  proof -
    have "sorted_wrt (<) (extensionIds ?e1)" using s by auto
    moreover have "sorted_wrt (<) (extensionIds ?e2)" using i by simp
    moreover have "\<forall>a \<in> set (extensionIds ?e1). \<forall>b \<in> set (extensionIds ?e2). a < b"
      using s i by fastforce
    ultimately show ?thesis by (simp add: sorted_wrt_append)
  qed
  have keys: "fst ` set (pendingRequests ?s2)
       \<subseteq> fst ` set (pendingRequests st) \<union> set (extensionIds (?e1 @ ?e2))"
  proof -
    have "fst ` set (pendingRequests ?s2)
            \<subseteq> fst ` set (pendingRequests ?s1) \<union> set (extensionIds ?e2)"
      using i by simp
    moreover have "fst ` set (pendingRequests ?s1)
            \<subseteq> fst ` set (pendingRequests st) \<union> set (extensionIds ?e1)"
      using s by simp
    ultimately show ?thesis by auto
  qed
  have dist: "distinct (map fst (pendingRequests st))
        \<longrightarrow> distinct (map fst (pendingRequests ?s2))"
    using s i by simp
  show ?case unfolding r using le bounds sorted keys dist by simp
qed

lemma run_local:
  "localMessageId st \<le> localMessageId (fst (run digest xs st))
   \<and> (\<forall>i \<in> set (localIds (snd (run digest xs st))).
         localMessageId st < i \<and> i \<le> localMessageId (fst (run digest xs st)))
   \<and> sorted_wrt (<) (localIds (snd (run digest xs st)))
   \<and> fst ` set (pendingLocalRequests (fst (run digest xs st)))
       \<subseteq> fst ` set (pendingLocalRequests st) \<union> set (localIds (snd (run digest xs st)))
   \<and> (distinct (map fst (pendingLocalRequests st))
        \<longrightarrow> distinct (map fst (pendingLocalRequests (fst (run digest xs st)))))"
proof (induction xs arbitrary: st)
  case Nil
  show ?case by simp
next
  case (Cons x xs)
  let ?s1 = "fst (step digest x st)" and ?e1 = "snd (step digest x st)"
  let ?s2 = "fst (run digest xs ?s1)" and ?e2 = "snd (run digest xs ?s1)"
  have r: "fst (run digest (x # xs) st) = ?s2" "snd (run digest (x # xs) st) = ?e1 @ ?e2"
    by (simp_all add: case_prod_beta)
  note s = step_local [of st digest x]
  note i = Cons.IH [of ?s1]
  have le: "localMessageId st \<le> localMessageId ?s2" using s i by linarith
  have bounds: "\<forall>i \<in> set (localIds (?e1 @ ?e2)). localMessageId st < i \<and> i \<le> localMessageId ?s2"
    using s i by fastforce
  have sorted: "sorted_wrt (<) (localIds (?e1 @ ?e2))"
  proof -
    have "sorted_wrt (<) (localIds ?e1)" using s by auto
    moreover have "sorted_wrt (<) (localIds ?e2)" using i by simp
    moreover have "\<forall>a \<in> set (localIds ?e1). \<forall>b \<in> set (localIds ?e2). a < b"
      using s i by fastforce
    ultimately show ?thesis by (simp add: sorted_wrt_append)
  qed
  have keys: "fst ` set (pendingLocalRequests ?s2)
       \<subseteq> fst ` set (pendingLocalRequests st) \<union> set (localIds (?e1 @ ?e2))"
  proof -
    have "fst ` set (pendingLocalRequests ?s2)
            \<subseteq> fst ` set (pendingLocalRequests ?s1) \<union> set (localIds ?e2)"
      using i by simp
    moreover have "fst ` set (pendingLocalRequests ?s1)
            \<subseteq> fst ` set (pendingLocalRequests st) \<union> set (localIds ?e1)"
      using s by simp
    ultimately show ?thesis by auto
  qed
  have dist: "distinct (map fst (pendingLocalRequests st))
        \<longrightarrow> distinct (map fst (pendingLocalRequests ?s2))"
    using s i by simp
  show ?case unfolding r using le bounds sorted keys dist by simp
qed


subsection \<open>The target registry\<close>


















lemma reconnectTrace_run:
  "extensionIds (snd (run sampleDigest reconnectTrace fresh)) = [1, 2, 3]
   \<and> localIds (snd (run sampleDigest reconnectTrace fresh)) = [1, 2]
   \<and> map fst (pendingRequests (fst (run sampleDigest reconnectTrace fresh))) = [2, 3]
   \<and> map fst (pendingLocalRequests (fst (run sampleDigest reconnectTrace fresh))) = [2]
   \<and> messageId (fst (run sampleDigest reconnectTrace fresh)) = 3
   \<and> localMessageId (fst (run sampleDigest reconnectTrace fresh)) = 2"
  by (simp add: reconnectTrace_def eval_defs getTags_def webSocketClose_def
      cleanupExtensionState_def cleanupLocalState_def)

section \<open>The claims\<close>

text \<open>
  C1.  In a room without an auth record, \<^verbatim>\<open>validatePassphrase\<close> with passphrase \<open>p\<close> admits and
  stores the hexadecimal SHA-256 digest of \<open>p\<close>.  Whatever happens to the room afterwards, the
  stored record stays the same, a later validation with passphrase \<open>q\<close> admits exactly when the
  digest of \<open>q\<close> equals the digest of \<open>p\<close>, and a request that carries a passphrase with another
  digest is answered with status 403 (on every path that validates, which is every path but
  the two status paths).
\<close>

theorem first_passphrase_wins:
  assumes "auth st = None"
    and "validatePassphrase digest now p st = (ok, st1)"
    and "run digest tr st1 = (st2, effs)"
  shows "ok
       \<and> auth st1 = Some \<lparr>passphraseHash = hashPassphrase digest p, createdAt = now\<rparr>
       \<and> auth st2 = auth st1
       \<and> validatePassphrase digest now' q st2 = (digest q = digest p, st2)
       \<and> (passphrase req = Some q \<and> q \<noteq> [] \<and> digest q \<noteq> digest p
            \<and> pathname req \<notin> {''/extension/status'', ''/local/status''}
          \<longrightarrow> fetch digest now' req st2
                = (\<lparr>body = Text ''Invalid passphrase'', status = 403\<rparr>, st2))"
proof -
  let ?a = "\<lparr>passphraseHash = hashPassphrase digest p, createdAt = now\<rparr>"
  from assms(1,2) have ok: "ok" and a1: "auth st1 = Some ?a"
    by (auto simp: validatePassphrase_def)
  from assms(3) have st2: "st2 = fst (run digest tr st1)" by simp
  have a2: "auth st2 = Some ?a" unfolding st2 using a1 by (rule run_auth)
  have admit: "validatePassphrase digest now' q st2 = (digest q = digest p, st2)"
    using a2 by (simp add: validate_stored hashPassphrase_eq_iff)
  have reject: "fetch digest now' req st2
                  = (\<lparr>body = Text ''Invalid passphrase'', status = 403\<rparr>, st2)"
    if "passphrase req = Some q" "q \<noteq> []" "digest q \<noteq> digest p"
       "pathname req \<notin> {''/extension/status'', ''/local/status''}"
  proof -
    from that(3) have "hashPassphrase digest q \<noteq> passphraseHash ?a"
      by (simp add: hashPassphrase_eq_iff)
    with a2 that(1,2) show ?thesis using that(4) by (rule fetch_mismatch)
  qed
  show ?thesis using ok a1 a2 admit reject by simp
qed

theorem first_passphrase_wins_witness:
  "auth fresh = None
   \<and> fst (validatePassphrase sampleDigest 7 ''p'' fresh)
   \<and> auth (snd (validatePassphrase sampleDigest 7 ''p'' fresh))
       = Some \<lparr>passphraseHash = ''70'', createdAt = 7\<rparr>
   \<and> status (fst (fetch sampleDigest 9 (request ''/extension'' (Some ''q'') 1)
                (fst (run sampleDigest
                        [(failing [], Fetch 8 (request ''/mcp/a'' (Some ''p'') 2))]
                        (snd (validatePassphrase sampleDigest 7 ''p'' fresh)))))) = 403"
proof -
  have h: "auth fresh = None" by (simp add: fresh_def)
  have d: "sampleDigest ''q'' \<noteq> sampleDigest ''p''" by (simp add: sampleDigest_def)
  have hp: "hashPassphrase sampleDigest ''p'' = ''70''"
    by (simp add: hashPassphrase_def sampleDigest_def hex2_def hexdigit_def)
  have r: "pathname (request ''/extension'' (Some ''q'') 1)
             \<notin> {''/extension/status'', ''/local/status''}"
    "passphrase (request ''/extension'' (Some ''q'') 1) = Some ''q''"
    by (simp_all add: request_def)
  show ?thesis
    using first_passphrase_wins [OF h surjective_pairing surjective_pairing,
        where digest = sampleDigest and now = 7 and p = "''p''" and q = "''q''" and now' = 9
          and req = "request ''/extension'' (Some ''q'') 1"
          and tr = "[(failing [], Fetch 8 (request ''/mcp/a'' (Some ''p'') 2))]"]
      h d hp r
    by simp
qed

text \<open>
  C2.  When the ledger has no entry for \<open>path\<close>, \<^verbatim>\<open>writeFile\<close> throws the error with the
  message "Cannot write to \<open>path\<close>: file has not been read yet. Read the file first to ensure
  you have the latest content.", has no effect on the outside (nothing is sent to the local
  client) and leaves the whole room, the ledger and the pending local requests with it, as it
  was.
\<close>

theorem write_before_read_fails:
  assumes "fileReadTimestamps st path = None"
  shows "writeFile bad path content st =
           (Inl (Error (''Cannot write to '' @ path
              @ '': file has not been read yet. Read the file first to ensure you have the latest content.'')),
            st, [])"
  using assms by (simp add: writeFile_def)

theorem write_before_read_fails_witness:
  "fileReadTimestamps busyRoom ''/tmp/y'' = None \<and>
   writeFile (failing []) ''/tmp/y'' ''hi'' busyRoom =
     (Inl (Error ''Cannot write to /tmp/y: file has not been read yet. Read the file first to ensure you have the latest content.''),
      busyRoom, [])"
proof -
  have h: "fileReadTimestamps busyRoom ''/tmp/y'' = None"
    by (simp add: busyRoom_eq)
  show ?thesis
    using h write_before_read_fails [OF h, of "failing []" "''hi''"] by simp
qed

text \<open>
  C3.  A response to a pending \<^verbatim>\<open>readFile\<close> or \<^verbatim>\<open>writeFile\<close> of \<open>path\<close> that carries no error
  and a result with mtime \<open>m\<close> sets the ledger entry of \<open>path\<close> to \<open>m\<close>.  With the local client
  connected, \<^verbatim>\<open>readFile\<close> dispatches \<^verbatim>\<open>file.read\<close> and registers itself as the waiter under
  the dispatched id; \<^verbatim>\<open>writeFile\<close> on a path whose ledger entry is \<open>m\<close> dispatches
  \<^verbatim>\<open>file.write\<close> with \<^verbatim>\<open>expectedMtime\<close> \<open>m\<close> and registers itself likewise.  So after a
  successful write that returned \<open>m'\<close> the next \<^verbatim>\<open>writeFile\<close> forwards \<open>m'\<close>.
\<close>

theorem ledger_follows_reads_and_writes:
  "(map_of (pendingLocalRequests st) mid = Some pending
      \<and> (awaiter pending = AwaitReadFile path \<or> awaiter pending = AwaitWriteFile path)
      \<and> \<not> truthy_string err \<and> mtimeOf r = Some m
    \<longrightarrow> fileReadTimestamps (fst (handleLocalMessage (LocalResponse mid (Some r) err) st)) path
          = Some m)
   \<and> (getLocalWebSocket st = Some localWs \<and> \<not> bad localWs
    \<longrightarrow> fst (readFile bad path st) = Inr (localMessageId st + 1)
        \<and> map_option awaiter
            (map_of (pendingLocalRequests (fst (snd (readFile bad path st))))
               (localMessageId st + 1))
          = Some (AwaitReadFile path)
        \<and> snd (snd (readFile bad path st))
          = [Send localWs (LocalCommandMessage (localMessageId st + 1)
               \<lparr>LocalCommand.methodName = ''file.read'',
                LocalCommand.params = LocalReadParams path\<rparr>)])
   \<and> (getLocalWebSocket st = Some localWs \<and> \<not> bad localWs
        \<and> fileReadTimestamps st path = Some m
    \<longrightarrow> fst (writeFile bad path content st) = Inr (localMessageId st + 1)
        \<and> map_option awaiter
            (map_of (pendingLocalRequests (fst (snd (writeFile bad path content st))))
               (localMessageId st + 1))
          = Some (AwaitWriteFile path)
        \<and> snd (snd (writeFile bad path content st))
          = [Send localWs (LocalCommandMessage (localMessageId st + 1)
               \<lparr>LocalCommand.methodName = ''file.write'',
                LocalCommand.params = LocalWriteParams path content (Some m)\<rparr>)])"
proof (intro conjI impI)
  assume "map_of (pendingLocalRequests st) mid = Some pending
      \<and> (awaiter pending = AwaitReadFile path \<or> awaiter pending = AwaitWriteFile path)
      \<and> \<not> truthy_string err \<and> mtimeOf r = Some m"
  then show "fileReadTimestamps (fst (handleLocalMessage (LocalResponse mid (Some r) err) st)) path
          = Some m"
    using completion_records_mtime [of st mid pending path err r m] by blast
next
  assume a: "getLocalWebSocket st = Some localWs \<and> \<not> bad localWs"
  then have s: "\<And>command tmo waiting. sendToLocalClient bad command tmo waiting st = 
     (Inr (localMessageId st + 1),
      st\<lparr>localMessageId := localMessageId st + 1,
         pendingLocalRequests :=
           AList.update (localMessageId st + 1)
             \<lparr>awaiter = waiting,
              PendingLocalRequest.timeout = (case tmo of None \<Rightarrow> 30000 | Some t \<Rightarrow> t),
              localMethod = LocalCommand.methodName command\<rparr>
             (pendingLocalRequests st)\<rparr>,
      [Send localWs (LocalCommandMessage (localMessageId st + 1) command)])"
    by (simp add: sendToLocalClient_ok)
  show "fst (readFile bad path st) = Inr (localMessageId st + 1)"
    by (simp add: readFile_def s)
  show "map_option awaiter
            (map_of (pendingLocalRequests (fst (snd (readFile bad path st))))
               (localMessageId st + 1))
          = Some (AwaitReadFile path)"
    by (simp add: readFile_def s)
  show "snd (snd (readFile bad path st))
          = [Send localWs (LocalCommandMessage (localMessageId st + 1)
               \<lparr>LocalCommand.methodName = ''file.read'',
                LocalCommand.params = LocalReadParams path\<rparr>)]"
    by (simp add: readFile_def s)
next
  assume a: "getLocalWebSocket st = Some localWs \<and> \<not> bad localWs
        \<and> fileReadTimestamps st path = Some m"
  then have w: "writeFile bad path content st =
     sendToLocalClient bad
            \<lparr>LocalCommand.methodName = ''file.write'',
             LocalCommand.params = LocalWriteParams path content (Some m)\<rparr>
            None (AwaitWriteFile path) st"
    by (simp add: writeFile_def)
  from a have s: "\<And>command tmo waiting. sendToLocalClient bad command tmo waiting st = 
     (Inr (localMessageId st + 1),
      st\<lparr>localMessageId := localMessageId st + 1,
         pendingLocalRequests :=
           AList.update (localMessageId st + 1)
             \<lparr>awaiter = waiting,
              PendingLocalRequest.timeout = (case tmo of None \<Rightarrow> 30000 | Some t \<Rightarrow> t),
              localMethod = LocalCommand.methodName command\<rparr>
             (pendingLocalRequests st)\<rparr>,
      [Send localWs (LocalCommandMessage (localMessageId st + 1) command)])"
    by (simp add: sendToLocalClient_ok)
  show "fst (writeFile bad path content st) = Inr (localMessageId st + 1)"
    by (simp add: w s)
  show "map_option awaiter
            (map_of (pendingLocalRequests (fst (snd (writeFile bad path content st))))
               (localMessageId st + 1))
          = Some (AwaitWriteFile path)"
    by (simp add: w s)
  show "snd (snd (writeFile bad path content st))
          = [Send localWs (LocalCommandMessage (localMessageId st + 1)
               \<lparr>LocalCommand.methodName = ''file.write'',
                LocalCommand.params = LocalWriteParams path content (Some m)\<rparr>)]"
    by (simp add: w s)
qed

theorem ledger_follows_reads_and_writes_witness:
  "getLocalWebSocket busyRoom = Some 4 \<and> \<not> failing [] 4
   \<and> fileReadTimestamps busyRoom ''/tmp/x'' = Some 100
   \<and> snd (snd (writeFile (failing []) ''/tmp/x'' ''new'' busyRoom))
       = [Send 4 (LocalCommandMessage 3
            \<lparr>LocalCommand.methodName = ''file.write'',
             LocalCommand.params = LocalWriteParams ''/tmp/x'' ''new'' (Some 100)\<rparr>)]
   \<and> map_option awaiter
         (map_of (pendingLocalRequests
                    (fst (snd (writeFile (failing []) ''/tmp/x'' ''new'' busyRoom)))) 3)
       = Some (AwaitWriteFile ''/tmp/x'')
   \<and> \<not> truthy_string None \<and> mtimeOf (LocalWriteResult 200) = Some 200
   \<and> fileReadTimestamps
         (fst (handleLocalMessage (LocalResponse 3 (Some (LocalWriteResult 200)) None)
                 (fst (snd (writeFile (failing []) ''/tmp/x'' ''new'' busyRoom)))))
         ''/tmp/x''
       = Some 200"
proof -
  have l: "getLocalWebSocket busyRoom = Some 4"
    by (simp add: busyRoom_eq getLocalWebSocket_def startsWith_def)
  have b: "\<not> failing [] 4" by (simp add: failing_def)
  have f: "fileReadTimestamps busyRoom ''/tmp/x'' = Some 100" by (simp add: busyRoom_eq)
  have n: "localMessageId busyRoom + 1 = 3" by (simp add: busyRoom_eq)
  have t: "\<not> truthy_string None" "mtimeOf (LocalWriteResult 200) = Some 200"
    by (simp_all add: truthy_string_def mtimeOf_def)
  note w = ledger_follows_reads_and_writes
    [where st = busyRoom and localWs = 4 and bad = "failing []" and path = "''/tmp/x''"
       and content = "''new''" and m = 100]
  have d: "snd (snd (writeFile (failing []) ''/tmp/x'' ''new'' busyRoom))
       = [Send 4 (LocalCommandMessage 3
            \<lparr>LocalCommand.methodName = ''file.write'',
             LocalCommand.params = LocalWriteParams ''/tmp/x'' ''new'' (Some 100)\<rparr>)]"
    and a: "map_option awaiter
         (map_of (pendingLocalRequests
                    (fst (snd (writeFile (failing []) ''/tmp/x'' ''new'' busyRoom)))) 3)
       = Some (AwaitWriteFile ''/tmp/x'')"
    using w l b f n by simp_all
  from a obtain pending where
    p: "map_of (pendingLocalRequests
                    (fst (snd (writeFile (failing []) ''/tmp/x'' ''new'' busyRoom)))) 3
        = Some pending" and aw: "awaiter pending = AwaitWriteFile ''/tmp/x''"
    by auto
  have c: "fileReadTimestamps
         (fst (handleLocalMessage (LocalResponse 3 (Some (LocalWriteResult 200)) None)
                 (fst (snd (writeFile (failing []) ''/tmp/x'' ''new'' busyRoom)))))
         ''/tmp/x''
       = Some 200"
    using ledger_follows_reads_and_writes
      [where st = "fst (snd (writeFile (failing []) ''/tmp/x'' ''new'' busyRoom))"
         and mid = 3 and pending = pending and path = "''/tmp/x''" and err = None
         and r = "LocalWriteResult 200" and m = 200]
      p aw t
    by simp
  show ?thesis using l b f d a t c by simp
qed




text \<open>
  C5.  When the socket tagged \<^verbatim>\<open>extension\<close> closes, \<^verbatim>\<open>webSocketClose\<close> empties the target
  registry and the table of pending browser requests, rejects each request that was pending
  with the error "Extension connection closed", and closes every agent socket with code 1000
  and reason "Extension disconnected"; the ledger of read times and the pending local requests
  are as before.
\<close>

theorem extension_close_tears_down:
  assumes "webSocketClose [''extension''] st = (st', effs)"
  shows "connectedTargets st' = [] \<and> pendingRequests st' = []
       \<and> effs = map (\<lambda>(mid, pending).
                        Settled mid pending (Inl (Error ''Extension connection closed'')))
                  (pendingRequests st)
                @ map (\<lambda>w. Close w 1000 ''Extension disconnected'') (getMcpWebSockets st)
       \<and> fileReadTimestamps st' = fileReadTimestamps st
       \<and> pendingLocalRequests st' = pendingLocalRequests st"
  using assms
  by (auto simp: webSocketClose_def cleanupExtensionState_def startsWith_def
      getMcpWebSockets_def stopPingInterval_def split: if_splits)

theorem extension_close_tears_down_witness:
  "connectedTargets (fst (webSocketClose [''extension''] busyRoom)) = []
   \<and> pendingRequests (fst (webSocketClose [''extension''] busyRoom)) = []
   \<and> snd (webSocketClose [''extension''] busyRoom)
       = [Settled 1 \<lparr>mcpClientId = ''a'', PendingRequest.timeout = 30000,
                     forMethod = ''Page.enable''\<rparr>
            (Inl (Error ''Extension connection closed'')),
          Close 2 1000 ''Extension disconnected'', Close 3 1000 ''Extension disconnected'']
   \<and> fileReadTimestamps (fst (webSocketClose [''extension''] busyRoom)) ''/tmp/x'' = Some 100
   \<and> map fst (pendingLocalRequests (fst (webSocketClose [''extension''] busyRoom))) = [2]"
proof -
  have agents: "getMcpWebSockets busyRoom = [2, 3]"
    by (simp add: busyRoom_eq getMcpWebSockets_def startsWith_def)
  show ?thesis
    using extension_close_tears_down [OF surjective_pairing, of busyRoom] agents
    by (simp add: busyRoom_eq)
qed

text \<open>
  C6.  Over any life of a room (any sequence of requests, messages, closes, timers and calls,
  from the fresh room), the correlation ids sent to the extension are strictly increasing in
  the order of dispatch, and so are the ids sent to the local client; each counter bounds
  the ids it has given out and never decreases afterwards, whatever happens next.  The ids
  of each pending table are pairwise distinct and are among the dispatched ids, so the next
  id (the counter plus one) is never one that is still pending.
\<close>

theorem ids_increase_and_are_unique:
  assumes "run digest tr fresh = (st, effs)"
  shows "sorted_wrt (<) (extensionIds effs) \<and> sorted_wrt (<) (localIds effs)
       \<and> (\<forall>i \<in> set (extensionIds effs). 0 < i \<and> i \<le> messageId st)
       \<and> (\<forall>i \<in> set (localIds effs). 0 < i \<and> i \<le> localMessageId st)
       \<and> distinct (map fst (pendingRequests st))
       \<and> distinct (map fst (pendingLocalRequests st))
       \<and> fst ` set (pendingRequests st) \<subseteq> set (extensionIds effs)
       \<and> fst ` set (pendingLocalRequests st) \<subseteq> set (localIds effs)
       \<and> messageId st \<le> messageId (fst (run digest tr' st))
       \<and> localMessageId st \<le> localMessageId (fst (run digest tr' st))"
proof -
  from assms have st: "st = fst (run digest tr fresh)" and effs: "effs = snd (run digest tr fresh)"
    by simp_all
  have f: "messageId fresh = 0" "localMessageId fresh = 0" "pendingRequests fresh = []"
    "pendingLocalRequests fresh = []"
    by (simp_all add: fresh_def)
  show ?thesis
    unfolding st effs
    using run_extension [of fresh digest tr] run_local [of fresh digest tr]
      run_extension [of "fst (run digest tr fresh)" digest tr']
      run_local [of "fst (run digest tr fresh)" digest tr']
    by (simp add: f)
qed

theorem ids_increase_and_are_unique_witness:
  "extensionIds (snd (run sampleDigest reconnectTrace fresh)) = [1, 2, 3]
   \<and> localIds (snd (run sampleDigest reconnectTrace fresh)) = [1, 2]
   \<and> sorted_wrt (<) (extensionIds (snd (run sampleDigest reconnectTrace fresh)))
   \<and> sorted_wrt (<) (localIds (snd (run sampleDigest reconnectTrace fresh)))
   \<and> map fst (pendingRequests (fst (run sampleDigest reconnectTrace fresh))) = [2, 3]
   \<and> distinct (map fst (pendingRequests (fst (run sampleDigest reconnectTrace fresh))))
   \<and> map fst (pendingLocalRequests (fst (run sampleDigest reconnectTrace fresh))) = [2]
   \<and> messageId (fst (run sampleDigest reconnectTrace fresh)) = 3"
  using ids_increase_and_are_unique
          [OF surjective_pairing, of sampleDigest reconnectTrace "[]"]
        reconnectTrace_run
  by simp

text \<open>
  C7 (as amended).  A request without a passphrase (absent or empty) to any path other than
  the health paths and the two status paths is answered with status 401 and leaves the room
  as it was.  The status paths \<^verbatim>\<open>/extension/status\<close> and \<^verbatim>\<open>/local/status\<close> come before the
  passphrase check in \<^verbatim>\<open>fetch\<close>: they answer 200 with the connection flag, whatever the
  passphrase.
\<close>

theorem passphrase_required_except_status:
  "(pathname req \<notin> {''/'', ''/health'', ''/extension/status'', ''/local/status''}
      \<and> \<not> truthy_string (passphrase req)
    \<longrightarrow> fetch digest now req st = (\<lparr>body = Text ''Passphrase required'', status = 401\<rparr>, st))
   \<and> (pathname req = ''/extension/status''
    \<longrightarrow> fetch digest now req st
          = (\<lparr>body = Connected (getExtensionWebSocket st \<noteq> None), status = 200\<rparr>, st))
   \<and> (pathname req = ''/local/status''
    \<longrightarrow> fetch digest now req st
          = (\<lparr>body = Connected (getLocalWebSocket st \<noteq> None), status = 200\<rparr>, st))"
  by (simp add: fetch_def)

theorem passphrase_required_except_status_witness:
  "pathname (request ''/mcp/a'' None 5)
     \<notin> {''/'', ''/health'', ''/extension/status'', ''/local/status''}
   \<and> \<not> truthy_string (passphrase (request ''/mcp/a'' None 5))
   \<and> fetch sampleDigest 0 (request ''/mcp/a'' None 5) busyRoom
       = (\<lparr>body = Text ''Passphrase required'', status = 401\<rparr>, busyRoom)"
  using passphrase_required_except_status
          [of "request ''/mcp/a'' None 5" sampleDigest 0 busyRoom]
  by (simp add: request_def truthy_string_def)

text \<open>
  C7 as stated fails: a request to \<^verbatim>\<open>/extension/status\<close> without a passphrase is answered
  with status 200.
\<close>

theorem status_endpoint_without_passphrase:
  "pathname (request ''/extension/status'' None 5) \<notin> {''/'', ''/health''}
   \<and> \<not> truthy_string (passphrase (request ''/extension/status'' None 5))
   \<and> status (fst (fetch sampleDigest 0 (request ''/extension/status'' None 5) fresh)) = 200"
  by (simp add: fetch_def request_def truthy_string_def)

text \<open>
  C8 (as amended).  \<^verbatim>\<open>broadcastToMcpClients\<close> sends the event to the agent sockets in the
  order of the registry and stops at the first socket whose \<^verbatim>\<open>send\<close> throws: exactly the
  agents before that socket receive the event and the exception leaves the method.  When no
  send throws, every agent socket of the registry receives the event.
\<close>

theorem broadcast_until_first_failure:
  "fst (broadcastToMcpClients bad ev st)
     = map (\<lambda>w. Send w (Event ev)) (takeWhile (\<lambda>w. \<not> bad w) (getMcpWebSockets st))
   \<and> snd (broadcastToMcpClients bad ev st)
     = (if list_ex bad (getMcpWebSockets st) then Some sendFailure else None)
   \<and> ((\<forall>w \<in> set (getMcpWebSockets st). \<not> bad w) \<longrightarrow>
        (\<forall>w \<in> set (getMcpWebSockets st).
           received w (Event ev) (fst (broadcastToMcpClients bad ev st))))"
  by (auto simp: broadcastToMcpClients_def sendAll_takeWhile sendAll_thrown received_def
      takeWhile_eq_all_conv [THEN iffD2])

theorem broadcast_until_first_failure_witness:
  "getMcpWebSockets twoAgents = [2, 3] \<and> \<not> failing [] 2 \<and> \<not> failing [] 3
   \<and> received 2 (Event (detachedEvent ''s''))
       (fst (broadcastToMcpClients (failing []) (detachedEvent ''s'') twoAgents))
   \<and> received 3 (Event (detachedEvent ''s''))
       (fst (broadcastToMcpClients (failing []) (detachedEvent ''s'') twoAgents))"
proof -
  have agents: "getMcpWebSockets twoAgents = [2, 3]"
    by (simp add: twoAgents_def acceptWebSocket_def fresh_def getMcpWebSockets_def
        startsWith_def)
  have ok: "\<forall>w \<in> set (getMcpWebSockets twoAgents). \<not> failing [] w"
    by (simp add: failing_def)
  show ?thesis
    using broadcast_until_first_failure [of "failing []" "detachedEvent ''s''" twoAgents]
      agents ok
    by (simp add: received_def failing_def)
qed

text \<open>
  C8 as stated fails: with the agents 2 and 3 in the registry and the send to agent 2
  throwing, the send to agent 3 does not throw (it is never tried), and agent 3 does not
  receive the event.
\<close>

theorem broadcast_not_isolated:
  "getMcpWebSockets twoAgents = [2, 3] \<and> \<not> failing [2] 3
   \<and> \<not> received 3 (Event (detachedEvent ''s''))
         (fst (broadcastToMcpClients (failing [2]) (detachedEvent ''s'') twoAgents))"
  by (simp add: twoAgents_def acceptWebSocket_def fresh_def getMcpWebSockets_def startsWith_def
      failing_def received_def broadcastToMcpClients_def)

text \<open>
  C9.  The claim fails when the tool gives no timeout: \<^verbatim>\<open>executeBash\<close> then arms the request
  with a deadline of 30000 ms, and \<^verbatim>\<open>handleBashExecute\<close> lets the command run for its default
  30000 ms too, so the deadline is the command timeout with no slack at all.  (With a
  non-zero timeout \<open>t\<close> the deadline is \<open>t + 5000\<close>: lemma \<open>executeBash_explicit_timeout\<close>;
  without one it is the command timeout itself: lemma \<open>executeBash_default_timeout\<close>.)
\<close>

theorem bash_default_deadline_without_slack:
  "snd (snd (executeBash (failing []) ''sleep 40'' None busyRoom))
     = [Send 4 (LocalCommandMessage 3
          \<lparr>LocalCommand.methodName = ''bash.execute'',
           LocalCommand.params = LocalBashParams ''sleep 40'' None None\<rparr>)]
   \<and> handleBashExecute_timeout (LocalBashParams ''sleep 40'' None None) = 30000
   \<and> map_option PendingLocalRequest.timeout
        (map_of (pendingLocalRequests
                   (fst (snd (executeBash (failing []) ''sleep 40'' None busyRoom)))) 3)
     = Some 30000
   \<and> snd (localTimeout 3 (fst (snd (executeBash (failing []) ''sleep 40'' None busyRoom))))
     = [SettledLocal 3
          \<lparr>awaiter = AwaitExecuteBash, PendingLocalRequest.timeout = 30000,
           localMethod = ''bash.execute''\<rparr>
          (Inl (Error ''Local client request timeout after 30000ms: bash.execute''))]"
  by (simp add: busyRoom_eq executeBash_def sendToLocalClient_def getLocalWebSocket_def
      startsWith_def failing_def optionsTimeout_def optionsWorkdir_def truthy_number_def
      handleBashExecute_timeout_def localTimeout_def resume_def show_number_def)



end
